theory Spec2Isabelle
  imports Complex_Main "HOL-Library.Multiset" "HOL-Library.Log_Nat"
begin

section \<open>Test-report generators: aggregation, run summary and run-over-run comparison\<close>

text \<open>
  The development embeds the computational core of
  \<^verbatim>\<open>src/framework/utils/html-report-generator.py\<close> and
  \<^verbatim>\<open>src/framework/utils/pdf-report-generator.py\<close>: the per-module counters
  computed in \<^verbatim>\<open>fetch_current_run_data\<close>, the run totals and pass rate of
  \<^verbatim>\<open>create_html\<close> and \<^verbatim>\<open>calculate_summary\<close>, the per-module and per-test
  comparison of \<^verbatim>\<open>create_html\<close> and \<^verbatim>\<open>generate_test_list_html\<close>, and the
  control flow of the two \<^verbatim>\<open>main\<close> functions.  Markup, HTTP and SQL are not modelled;
  the values that the markup interpolates are.
\<close>

subsection \<open>Data\<close>

text \<open>
  A test is a JSON object read with \<^verbatim>\<open>dict.get\<close>; every key may be missing, which is
  the value \<open>None\<close> of the field.  Fields carry values of the JSON type the code expects
  (strings, whole numbers of milliseconds).
\<close>

record test_case =
  name :: "string option"
  title :: "string option"
  status :: "string option"
  priority :: "string option"
  duration_ms :: "int option"
  duration :: "int option"

text \<open>A Python value that is either \<^verbatim>\<open>None\<close> or a string.\<close>

datatype pyval = PyNone | PyStr string

text \<open>
  A module dictionary as \<^verbatim>\<open>create_html\<close> and \<^verbatim>\<open>calculate_summary\<close> read it.
  The counters are read with \<^verbatim>\<open>get(key, 0)\<close> and \<^verbatim>\<open>runenv\<close> with
  \<^verbatim>\<open>get('runenv', 'Unknown')\<close>, so a missing key is \<open>None\<close>; \<^verbatim>\<open>runenv\<close> may also
  be present with the value \<^verbatim>\<open>None\<close>.  The key \<^verbatim>\<open>module_name\<close> is read with
  \<^verbatim>\<open>module['module_name']\<close> and its value is used as a string.
\<close>

record module =
  "module_name" :: string
  test_cases_run :: "int option"
  test_cases_passed :: "int option"
  test_cases_failed :: "int option"
  test_cases_skipped :: "int option"
  highest_priority_failed :: "int option"
  high_priority_failed :: "int option"
  medium_priority_failed :: "int option"
  low_priority_failed :: "int option"
  runenv :: "pyval option"
  tests :: "test_case list"

text \<open>A row of the query of \<^verbatim>\<open>fetch_current_run_data\<close>, with \<^verbatim>\<open>run_data\<close> parsed.\<close>

record module_row =
  row_module_name :: string
  row_tests :: "test_case list"
  row_runenv :: "pyval option"

subsection \<open>Aggregation (\<^verbatim>\<open>fetch_current_run_data\<close>)\<close>

text \<open>\<^verbatim>\<open>sum(1 for t in tests if P(t))\<close>\<close>

definition count_where :: "('a \<Rightarrow> bool) \<Rightarrow> 'a list \<Rightarrow> int" where
  "count_where P ts = sum_list (map (\<lambda>t. 1) (filter P ts))"

text \<open>\<^verbatim>\<open>t.get('status') == s\<close> and \<^verbatim>\<open>t.get('priority') == p\<close>\<close>

definition status_is :: "string \<Rightarrow> test_case \<Rightarrow> bool" where
  "status_is s t = (status t = Some s)"

definition priority_is :: "string \<Rightarrow> test_case \<Rightarrow> bool" where
  "priority_is p t = (priority t = Some p)"

definition failed_with :: "string \<Rightarrow> test_case \<Rightarrow> bool" where
  "failed_with p t = (status_is ''failed'' t \<and> priority_is p t)"

text \<open>
  The body of the loop over the rows: the counters of one module.
  \<^verbatim>\<open>module.get('runenv')\<close> stores \<^verbatim>\<open>None\<close> under the key when the row has none.
\<close>

definition parse_module :: "module_row \<Rightarrow> module" where
  "parse_module r =
     (let ts = row_tests r in
      \<lparr> module_name = row_module_name r,
        test_cases_run = Some (int (length ts)),
        test_cases_passed = Some (count_where (status_is ''passed'') ts),
        test_cases_failed = Some (count_where (status_is ''failed'') ts),
        test_cases_skipped = Some (count_where (status_is ''skipped'') ts),
        highest_priority_failed = Some (count_where (failed_with ''highest'') ts),
        high_priority_failed = Some (count_where (failed_with ''high'') ts),
        medium_priority_failed = Some (count_where (failed_with ''medium'') ts),
        low_priority_failed = Some (count_where (failed_with ''low'') ts),
        runenv = Some (case row_runenv r of None \<Rightarrow> PyNone | Some v \<Rightarrow> v),
        tests = ts \<rparr>)"

definition fetch_current_run_data :: "module_row list \<Rightarrow> module list" where
  "fetch_current_run_data rows = map parse_module rows"

text \<open>\<^verbatim>\<open>d.get(key, 0)\<close> on a counter.\<close>

definition get0 :: "int option \<Rightarrow> int" where
  "get0 v = (case v of None \<Rightarrow> 0 | Some n \<Rightarrow> n)"

text \<open>
  The number of outcomes whose status is none of the three counted ones, as the
  specification defines its \<open>unknownCount\<close>; the code keeps no such counter.
\<close>

definition unknownCount :: "test_case list \<Rightarrow> int" where
  "unknownCount ts =
     count_where (\<lambda>t. \<not> status_is ''passed'' t \<and> \<not> status_is ''failed'' t
                      \<and> \<not> status_is ''skipped'' t) ts"

text \<open>The four priority values the code compares with.\<close>

definition recognized_priority :: "test_case \<Rightarrow> bool" where
  "recognized_priority t =
     (priority_is ''highest'' t \<or> priority_is ''high'' t
      \<or> priority_is ''medium'' t \<or> priority_is ''low'' t)"

definition priority_failed_sum :: "module \<Rightarrow> int" where
  "priority_failed_sum m =
     get0 (highest_priority_failed m) + get0 (high_priority_failed m)
     + get0 (medium_priority_failed m) + get0 (low_priority_failed m)"

subsection \<open>Python numbers: \<^verbatim>\<open>int / int\<close>, \<^verbatim>\<open>float * 100\<close> and \<^verbatim>\<open>round\<close>\<close>

text \<open>
  Python's \<^verbatim>\<open>/\<close> on two integers returns the IEEE 754 binary64 number nearest to the
  exact quotient (ties to even), and raises \<^verbatim>\<open>OverflowError\<close> when that number is
  not finite.  A double is modelled by the rational it denotes; the two infinities are
  separate values.  NaN does not arise in the expressions modelled, and the sign of a zero,
  which changes none of the values computed here, is not kept.
\<close>

datatype py_error = OverflowError string | ZeroDivisionError string

text \<open>\<^verbatim>\<open>str(e)\<close> of an exception.\<close>

definition error_message :: "py_error \<Rightarrow> string" where
  "error_message e = (case e of OverflowError msg \<Rightarrow> msg | ZeroDivisionError msg \<Rightarrow> msg)"

datatype pyfloat = Fin rat | PosInf | NegInf

text \<open>Rounding a rational to an integer, ties to the even neighbour.\<close>

definition round_half_even :: "rat \<Rightarrow> int" where
  "round_half_even x =
     (let n = \<lfloor>x\<rfloor>; r = x - of_int n
      in if r < 1 / 2 then n else if 1 / 2 < r then n + 1 else if even n then n else n + 1)"

text \<open>For \<open>0 < x\<close>, the exponent \<open>e\<close> with \<open>2 powi e \<le> x < 2 powi (e + 1)\<close>.\<close>

definition ilog2 :: "rat \<Rightarrow> int" where
  "ilog2 x = (if 1 \<le> x then bitlen \<lfloor>x\<rfloor> - 1 else - bitlen (\<lceil>1 / x\<rceil> - 1))"

text \<open>
  Rounding to 53 significant bits, with the spacing \<open>2 powi (- 1074)\<close> of the subnormal
  numbers as the smallest spacing; the exponent is not bounded above here.
\<close>

definition binary64 :: "rat \<Rightarrow> rat" where
  "binary64 x =
     (if x = 0 then 0
      else let q = max (ilog2 \<bar>x\<bar> - 52) (- 1074)
           in of_int (round_half_even (x / 2 powi q)) * 2 powi q)"

text \<open>A rounded result of magnitude \<open>2 ^ 1024\<close> or more is an infinity.\<close>

definition to_float :: "rat \<Rightarrow> pyfloat" where
  "to_float x =
     (let y = binary64 x
      in if 2 ^ 1024 \<le> y then PosInf else if y \<le> - (2 ^ 1024) then NegInf else Fin y)"

text \<open>\<^verbatim>\<open>a / b\<close> on integers.\<close>

definition true_div :: "int \<Rightarrow> int \<Rightarrow> py_error + pyfloat" where
  "true_div a b =
     (if b = 0 then Inl (ZeroDivisionError ''division by zero'')
      else case to_float (of_int a / of_int b) of
             Fin y \<Rightarrow> Inr (Fin y)
           | PosInf \<Rightarrow> Inl (OverflowError ''integer division result too large for a float'')
           | NegInf \<Rightarrow> Inl (OverflowError ''integer division result too large for a float''))"

text \<open>\<^verbatim>\<open>f * 100\<close> on a float: the product is rounded, and overflows to an infinity silently.\<close>

definition times_100 :: "pyfloat \<Rightarrow> pyfloat" where
  "times_100 f = (case f of Fin x \<Rightarrow> to_float (x * 100) | PosInf \<Rightarrow> PosInf | NegInf \<Rightarrow> NegInf)"

text \<open>\<^verbatim>\<open>round(f)\<close> on a float: ties to even, \<^verbatim>\<open>OverflowError\<close> on an infinity.\<close>

definition py_round :: "pyfloat \<Rightarrow> py_error + int" where
  "py_round f =
     (case f of Fin x \<Rightarrow> Inr (round_half_even x)
      | PosInf \<Rightarrow> Inl (OverflowError ''cannot convert float infinity to integer'')
      | NegInf \<Rightarrow> Inl (OverflowError ''cannot convert float infinity to integer''))"

subsection \<open>Run summary (\<^verbatim>\<open>calculate_summary\<close>, and lines 543 to 551 of \<^verbatim>\<open>create_html\<close>)\<close>

record run_summary =
  total_modules :: int
  total_tests :: int
  total_passed :: int
  total_failed :: int
  total_skipped :: int
  pass_rate :: int

text \<open>
  \<^verbatim>\<open>round((total_passed / total_tests) * 100) if total_tests > 0 else 0\<close>
\<close>

definition pass_rate_of :: "int \<Rightarrow> int \<Rightarrow> py_error + int" where
  "pass_rate_of tp tt =
     (if tt > 0
      then (case true_div tp tt of
              Inl e \<Rightarrow> Inl e
            | Inr q \<Rightarrow> py_round (times_100 q))
      else Inr 0)"

text \<open>
  \<^verbatim>\<open>calculate_summary\<close> of the PDF generator.  \<^verbatim>\<open>create_html\<close> computes the same four
  sums and the same pass rate inline and interpolates \<^verbatim>\<open>len(modules)\<close>.
\<close>

definition calculate_summary :: "module list \<Rightarrow> py_error + run_summary" where
  "calculate_summary records =
     (let tt = sum_list (map (\<lambda>r. get0 (test_cases_run r)) records);
          tp = sum_list (map (\<lambda>r. get0 (test_cases_passed r)) records);
          tf = sum_list (map (\<lambda>r. get0 (test_cases_failed r)) records);
          ts = sum_list (map (\<lambda>r. get0 (test_cases_skipped r)) records)
      in case pass_rate_of tp tt of
           Inl e \<Rightarrow> Inl e
         | Inr pr \<Rightarrow> Inr \<lparr> total_modules = int (length records), total_tests = tt,
                           total_passed = tp, total_failed = tf, total_skipped = ts,
                           pass_rate = pr \<rparr>)"

text \<open>\<^verbatim>\<open>m.get('runenv', 'Unknown')\<close>\<close>

definition get_runenv :: "module \<Rightarrow> pyval" where
  "get_runenv m = (case runenv m of None \<Rightarrow> PyStr ''Unknown'' | Some v \<Rightarrow> v)"

text \<open>
  \<^verbatim>\<open>modules[0].get('runenv', 'Unknown') if modules else 'Unknown'\<close> in \<^verbatim>\<open>create_html\<close>;
  \<^verbatim>\<open>generate_pdf_report\<close> reads \<^verbatim>\<open>records[0].get('runenv', 'Unknown')\<close> after it has
  returned early on an empty list.
\<close>

definition run_env :: "module list \<Rightarrow> pyval" where
  "run_env modules = (case modules of [] \<Rightarrow> PyStr ''Unknown'' | m # _ \<Rightarrow> get_runenv m)"

subsection \<open>Per-test comparison (\<^verbatim>\<open>generate_test_list_html\<close>)\<close>

text \<open>
  \<^verbatim>\<open>test.get('name', test.get('title', ''))\<close> for a test of the previous run, and
  \<^verbatim>\<open>test.get('name', test.get('title', 'Unknown Test'))\<close> for a test of the current run.
\<close>

definition prev_test_name :: "test_case \<Rightarrow> string" where
  "prev_test_name t =
     (case name t of Some n \<Rightarrow> n | None \<Rightarrow> (case title t of Some n \<Rightarrow> n | None \<Rightarrow> []))"

definition cur_test_name :: "test_case \<Rightarrow> string" where
  "cur_test_name t =
     (case name t of Some n \<Rightarrow> n
      | None \<Rightarrow> (case title t of Some n \<Rightarrow> n | None \<Rightarrow> ''Unknown Test''))"

text \<open>\<^verbatim>\<open>test.get('duration_ms', test.get('duration', 0))\<close>\<close>

definition get_duration :: "test_case \<Rightarrow> int" where
  "get_duration t =
     (case duration_ms t of Some d \<Rightarrow> d
      | None \<Rightarrow> (case duration t of Some d \<Rightarrow> d | None \<Rightarrow> 0))"

text \<open>
  The loop \<^verbatim>\<open>prev_tests_map[test_name] = test\<close> over the previous module's tests: a
  later test with the same name replaces the earlier one.
\<close>

fun add_prev_tests :: "(string \<rightharpoonup> test_case) \<Rightarrow> test_case list \<Rightarrow> (string \<rightharpoonup> test_case)" where
  "add_prev_tests m [] = m"
| "add_prev_tests m (t # ts) = add_prev_tests (m(prev_test_name t \<mapsto> t)) ts"

definition prev_tests_map :: "module option \<Rightarrow> (string \<rightharpoonup> test_case)" where
  "prev_tests_map prev_module =
     (case prev_module of None \<Rightarrow> Map.empty
      | Some pm \<Rightarrow> add_prev_tests Map.empty (tests pm))"

datatype classification = worse | better | same

text \<open>
  What the time-difference cell shows: the variables \<^verbatim>\<open>time_diff\<close> and
  \<^verbatim>\<open>percent_change\<close>, the number \<^verbatim>\<open>abs(time_diff) / 1000\<close> that
  \<^verbatim>\<open>time_diff_str\<close> formats, and the class of the \<^verbatim>\<open>span\<close>.  The cell \<^verbatim>\<open>N/A\<close> is
  \<open>None\<close>.
\<close>

record test_delta =
  time_diff :: int
  time_diff_str :: pyfloat
  percent_change :: pyfloat
  verdict :: classification

text \<open>
  \<^verbatim>\<open>if prev_test:\<close> on a dictionary is false exactly for the empty one.  A dictionary
  with none of the six keys read here has no duration, and then the comparison below is
  the same whether the test counts as present or not.
\<close>

definition test_truthy :: "test_case \<Rightarrow> bool" where
  "test_truthy t =
     (name t \<noteq> None \<or> title t \<noteq> None \<or> status t \<noteq> None \<or> priority t \<noteq> None
      \<or> duration_ms t \<noteq> None \<or> duration t \<noteq> None)"

text \<open>
  Lines 497 to 518, for the current test's \<^verbatim>\<open>duration\<close> and the looked-up
  \<^verbatim>\<open>prev_test\<close>: the pair of \<^verbatim>\<open>prev_time\<close> and \<^verbatim>\<open>time_diff_html\<close>.  A number is
  false in a condition exactly when it is zero.  The times are shown in seconds:
  \<^verbatim>\<open>prev_duration / 1000\<close> is computed as soon as \<^verbatim>\<open>prev_duration\<close> is non-zero
  (line 506), \<^verbatim>\<open>abs(time_diff) / 1000\<close> before the percentage (line 510), and each of
  these divisions raises \<^verbatim>\<open>OverflowError\<close> like any other.  The \<^verbatim>\<open>0\<close> that
  \<^verbatim>\<open>percent_change\<close> takes for a negative \<^verbatim>\<open>prev_duration\<close> is the number zero.
\<close>

definition compare_with_previous ::
  "int \<Rightarrow> test_case option \<Rightarrow> py_error + (pyfloat option \<times> test_delta option)" where
  "compare_with_previous dur prev_test =
     (case prev_test of
        None \<Rightarrow> Inr (None, None)
      | Some pt \<Rightarrow>
          if \<not> test_truthy pt then Inr (None, None)
          else let prev_duration = get_duration pt in
            if prev_duration = 0 then Inr (None, None)
            else
              (case true_div prev_duration 1000 of
                 Inl e \<Rightarrow> Inl e
               | Inr prev_secs \<Rightarrow>
                   if dur \<noteq> 0 \<and> prev_duration \<noteq> 0
                   then (let td = dur - prev_duration in
                         case true_div \<bar>td\<bar> 1000 of
                           Inl e \<Rightarrow> Inl e
                         | Inr td_secs \<Rightarrow>
                             (case (if prev_duration > 0
                                    then map_sum id times_100 (true_div td prev_duration)
                                    else Inr (Fin 0)) of
                                Inl e \<Rightarrow> Inl e
                              | Inr pc \<Rightarrow>
                                  Inr (Some prev_secs,
                                       Some \<lparr> time_diff = td, time_diff_str = td_secs,
                                              percent_change = pc,
                                              verdict = (if td > 0 then worse
                                                         else if td < 0 then better
                                                         else same) \<rparr>)))
                   else Inr (Some prev_secs, None)))"

text \<open>
  A row of the table.  \<open>current_time\<close> and \<open>prev_time\<close> hold the numbers of seconds that
  the cells format, \<open>None\<close> for the cell \<^verbatim>\<open>N/A\<close>.
\<close>

record test_row =
  row_name :: string
  row_status :: string
  row_priority :: string
  current_time :: "pyfloat option"
  prev_time :: "pyfloat option"
  time_diff_html :: "test_delta option"

text \<open>
  The body of the loop over the current module's tests.  Line 495 computes
  \<^verbatim>\<open>duration / 1000\<close> for a non-zero \<^verbatim>\<open>duration\<close>, before the previous test is looked
  up.
\<close>

definition test_row_of :: "(string \<rightharpoonup> test_case) \<Rightarrow> test_case \<Rightarrow> py_error + test_row" where
  "test_row_of prev_map t =
     (let test_name = cur_test_name t;
          dur = get_duration t
      in case (if dur \<noteq> 0 then map_sum id Some (true_div dur 1000) else Inr None) of
           Inl e \<Rightarrow> Inl e
         | Inr ct \<Rightarrow>
             (case compare_with_previous dur (prev_map test_name) of
                Inl e \<Rightarrow> Inl e
              | Inr (pt, td) \<Rightarrow>
                  Inr \<lparr> row_name = test_name,
                        row_status = (case status t of None \<Rightarrow> ''unknown'' | Some s \<Rightarrow> s),
                        row_priority = (case priority t of None \<Rightarrow> ''medium'' | Some p \<Rightarrow> p),
                        current_time = ct,
                        prev_time = pt,
                        time_diff_html = td \<rparr>))"

fun test_rows :: "(string \<rightharpoonup> test_case) \<Rightarrow> test_case list \<Rightarrow> py_error + test_row list" where
  "test_rows prev_map [] = Inr []"
| "test_rows prev_map (t # ts) =
     (case test_row_of prev_map t of
        Inl e \<Rightarrow> Inl e
      | Inr r \<Rightarrow> (case test_rows prev_map ts of Inl e \<Rightarrow> Inl e | Inr rs \<Rightarrow> Inr (r # rs)))"

datatype test_list_html = NoTestData | TestTable "test_row list"

definition generate_test_list_html :: "module \<Rightarrow> module option \<Rightarrow> py_error + test_list_html" where
  "generate_test_list_html m prev_module =
     (if tests m = [] then Inr NoTestData
      else map_sum id TestTable (test_rows (prev_tests_map prev_module) (tests m)))"

subsection \<open>Per-module comparison and the module cards (\<^verbatim>\<open>create_html\<close>)\<close>

text \<open>
  The loop of \<^verbatim>\<open>generate_html_report\<close> that fills \<^verbatim>\<open>prev_map\<close>, keyed by
  \<^verbatim>\<open>module_name\<close>; \<^verbatim>\<open>if previous_data:\<close> skips it for \<^verbatim>\<open>None\<close> and for the empty
  list.
\<close>

fun add_prev_modules :: "(string \<rightharpoonup> module) \<Rightarrow> module list \<Rightarrow> (string \<rightharpoonup> module)" where
  "add_prev_modules pm [] = pm"
| "add_prev_modules pm (m # ms) = add_prev_modules (pm(module_name m \<mapsto> m)) ms"

definition build_prev_map :: "module list option \<Rightarrow> (string \<rightharpoonup> module)" where
  "build_prev_map previous_data =
     (case previous_data of None \<Rightarrow> Map.empty
      | Some ms \<Rightarrow> add_prev_modules Map.empty ms)"

text \<open>
  The values interpolated into the comparison block.  The block is the empty string
  (\<open>None\<close>) unless \<^verbatim>\<open>prev_map.get(module_name)\<close> finds a module.
\<close>

record module_comparison =
  prev_passed :: int
  passed_diff :: int
  passed_class :: classification
  prev_failed :: int
  failed_diff :: int
  failed_class :: classification
  prev_skipped :: int
  skipped_diff :: int

definition comparison_html :: "module \<Rightarrow> module option \<Rightarrow> module_comparison option" where
  "comparison_html m prev_module =
     (case prev_module of
        None \<Rightarrow> None
      | Some pm \<Rightarrow>
          (let pp = get0 (test_cases_passed pm);
               pf = get0 (test_cases_failed pm);
               ps = get0 (test_cases_skipped pm);
               dp = get0 (test_cases_passed m) - pp;
               df = get0 (test_cases_failed m) - pf;
               ds = get0 (test_cases_skipped m) - ps
           in Some \<lparr> prev_passed = pp, passed_diff = dp,
                      passed_class = (if dp > 0 then better else if dp < 0 then worse else same),
                      prev_failed = pf, failed_diff = df,
                      failed_class = (if df < 0 then better else if df > 0 then worse else same),
                      prev_skipped = ps, skipped_diff = ds \<rparr>))"

record module_card =
  card_name :: string
  tests_run :: int
  tests_passed :: int
  tests_failed :: int
  tests_skipped :: int
  status_class :: string
  comparison :: "module_comparison option"
  test_list :: test_list_html

definition module_card_of :: "(string \<rightharpoonup> module) \<Rightarrow> module \<Rightarrow> py_error + module_card" where
  "module_card_of prev_map m =
     (let run = get0 (test_cases_run m);
          passed = get0 (test_cases_passed m);
          failed = get0 (test_cases_failed m);
          prev_module = prev_map (module_name m)
      in case generate_test_list_html m prev_module of
           Inl e \<Rightarrow> Inl e
         | Inr rows \<Rightarrow>
             Inr \<lparr> card_name = module_name m,
                   tests_run = run, tests_passed = passed, tests_failed = failed,
                   tests_skipped = get0 (test_cases_skipped m),
                   status_class = (if failed = 0 \<and> passed = run then ''passed''
                                   else if failed > 0 then ''failed'' else ''partial''),
                   comparison = comparison_html m prev_module,
                   test_list = rows \<rparr>)"

fun module_cards :: "(string \<rightharpoonup> module) \<Rightarrow> module list \<Rightarrow> py_error + module_card list" where
  "module_cards prev_map [] = Inr []"
| "module_cards prev_map (m # ms) =
     (case module_card_of prev_map m of
        Inl e \<Rightarrow> Inl e
      | Inr c \<Rightarrow> (case module_cards prev_map ms of Inl e \<Rightarrow> Inl e | Inr cs \<Rightarrow> Inr (c # cs)))"

record html_report =
  summary :: run_summary
  environment :: pyval
  cards :: "module_card list"

definition create_html :: "module list \<Rightarrow> (string \<rightharpoonup> module) \<Rightarrow> py_error + html_report" where
  "create_html modules prev_map =
     (case calculate_summary modules of
        Inl e \<Rightarrow> Inl e
      | Inr s \<Rightarrow>
          (case module_cards prev_map modules of
             Inl e \<Rightarrow> Inl e
           | Inr cs \<Rightarrow> Inr \<lparr> summary = s, environment = run_env modules, cards = cs \<rparr>))"

subsection \<open>The two \<^verbatim>\<open>main\<close> functions and the Slack upload\<close>

text \<open>
  The outside world is a parameter: the run identifier (argument or environment variable,
  \<open>None\<close> when neither is set), the path returned by the report generation (\<open>None\<close> when it
  failed), the set of files on disk after it, and what the Slack calls do.  The lines are
  those that \<^verbatim>\<open>main\<close> itself prints, without their leading pictograph.
\<close>

datatype http_reply =
    Reply_ok "string option"
  | Reply_api_error
  | Reply_http_error
  | Reply_exception

text \<open>
  \<^verbatim>\<open>upload_html_to_slack_thread\<close>: \<^verbatim>\<open>False\<close> when Slack is not configured, when the
  API or HTTP call fails and when anything raises (opening a missing file included); the
  permalink of the reply otherwise, which may be missing.  \<open>None\<close> stands for \<^verbatim>\<open>False\<close>
  and \<^verbatim>\<open>None\<close>.  The file is opened for reading only.
\<close>

definition upload_html_to_slack_thread ::
  "bool \<Rightarrow> string set \<Rightarrow> string \<Rightarrow> http_reply \<Rightarrow> string option" where
  "upload_html_to_slack_thread is_enabled disk html_path reply =
     (if \<not> is_enabled then None
      else if html_path \<notin> disk then None
      else case reply of
             Reply_ok link \<Rightarrow> link
           | Reply_api_error \<Rightarrow> None
           | Reply_http_error \<Rightarrow> None
           | Reply_exception \<Rightarrow> None)"

text \<open>\<^verbatim>\<open>send_pdf_notification\<close> with \<^verbatim>\<open>upload_file_to_slack\<close>: a boolean.\<close>

definition send_pdf_notification ::
  "bool \<Rightarrow> string set \<Rightarrow> string \<Rightarrow> http_reply \<Rightarrow> bool" where
  "send_pdf_notification is_enabled disk pdf_path reply =
     (if \<not> is_enabled then False
      else if pdf_path \<notin> disk then False
      else case reply of
             Reply_ok link \<Rightarrow> True
           | Reply_api_error \<Rightarrow> False
           | Reply_http_error \<Rightarrow> False
           | Reply_exception \<Rightarrow> False)"

record process_result =
  printed :: "string list"
  exit_code :: int
  disk_after :: "string set"

text \<open>
  \<^verbatim>\<open>main\<close> of the HTML generator.  \<open>slack_error\<close> is the message of an exception that
  escapes the Slack calls into \<^verbatim>\<open>except Exception as slack_error\<close>, if one does.
  \<^verbatim>\<open>sys.exit\<close> raises \<^verbatim>\<open>SystemExit\<close>, which \<^verbatim>\<open>except Exception\<close> does not catch.
\<close>

definition html_main ::
  "string option \<Rightarrow> string option \<Rightarrow> string set \<Rightarrow> string option \<Rightarrow> bool \<Rightarrow> http_reply
   \<Rightarrow> process_result" where
  "html_main cron_run_id output_path disk slack_error is_enabled reply =
     (if cron_run_id = None \<or> cron_run_id = Some []
      then \<lparr> printed = [''Error: CRON_RUN_ID not provided. Use as argument or environment variable.''],
             exit_code = 1, disk_after = disk \<rparr>
      else case output_path of
             None \<Rightarrow> \<lparr> printed = [], exit_code = 1, disk_after = disk \<rparr>
           | Some p \<Rightarrow>
               if p = [] then \<lparr> printed = [], exit_code = 1, disk_after = disk \<rparr>
               else
                 \<lparr> printed =
                     [''HTML report generated successfully: '' @ p]
                     @ (case slack_error of
                          Some e \<Rightarrow> [''Error uploading HTML to Slack: '' @ e,
                                      ''HTML generation was successful, continuing...'']
                        | None \<Rightarrow>
                            (case upload_html_to_slack_thread is_enabled disk p reply of
                               None \<Rightarrow> [''Failed to upload HTML report to Slack, but generation was successful'']
                             | Some url \<Rightarrow>
                                 if url \<noteq> []
                                 then [''HTML report uploaded to Slack successfully'']
                                 else [''Failed to upload HTML report to Slack, but generation was successful'']))
                     @ [''HTML_OUTPUT_PATH:'' @ p],
                   exit_code = 0, disk_after = disk \<rparr>)"

text \<open>
  \<^verbatim>\<open>main\<close> of the PDF generator.  It fetches the records again (\<open>None\<close> when that
  fails or finds nothing) and computes the summary for the message; an exception there is
  caught by the same \<^verbatim>\<open>except Exception as slack_error\<close>.
\<close>

definition pdf_main ::
  "string option \<Rightarrow> string option \<Rightarrow> string set \<Rightarrow> module list option \<Rightarrow> string option
   \<Rightarrow> bool \<Rightarrow> http_reply \<Rightarrow> process_result" where
  "pdf_main cron_run_id output_path disk records slack_error is_enabled reply =
     (if cron_run_id = None \<or> cron_run_id = Some []
      then \<lparr> printed = [''Error: CRON_RUN_ID not provided. Use as argument or environment variable.''],
             exit_code = 1, disk_after = disk \<rparr>
      else case output_path of
             None \<Rightarrow> \<lparr> printed = [], exit_code = 1, disk_after = disk \<rparr>
           | Some p \<Rightarrow>
               if p = [] then \<lparr> printed = [], exit_code = 1, disk_after = disk \<rparr>
               else
                 \<lparr> printed =
                     [''PDF report generated successfully: '' @ p,
                      ''Sending PDF report to Slack...'']
                     @ (case slack_error of
                          Some e \<Rightarrow> [''Error sending PDF to Slack: '' @ e,
                                      ''PDF generation was successful, continuing...'']
                        | None \<Rightarrow>
                            (case records of
                               None \<Rightarrow> [''Could not fetch data for Slack notification, but PDF generation was successful'']
                             | Some rs \<Rightarrow>
                                 if rs = []
                                 then [''Could not fetch data for Slack notification, but PDF generation was successful'']
                                 else (case calculate_summary rs of
                                         Inl e \<Rightarrow> [''Error sending PDF to Slack: '' @ error_message e,
                                                    ''PDF generation was successful, continuing...'']
                                       | Inr s \<Rightarrow>
                                           if send_pdf_notification is_enabled disk p reply
                                           then [''PDF report sent to Slack successfully'']
                                           else [''Failed to send PDF report to Slack, but PDF generation was successful''])))
                     @ [''PDF_OUTPUT_PATH:'' @ p],
                   exit_code = 0, disk_after = disk \<rparr>)"

subsection \<open>Example inputs\<close>

definition ex_row :: module_row where
  "ex_row = \<lparr> row_module_name = ''login'',
      row_tests = [\<lparr> name = Some ''a'', title = None, status = Some ''failed'',
                      priority = Some ''high'', duration_ms = Some 1200, duration = None \<rparr>,
                   \<lparr> name = Some ''b'', title = None, status = Some ''passed'',
                      priority = None, duration_ms = None, duration = None \<rparr>],
      row_runenv = Some (PyStr ''sbx'') \<rparr>"

definition ex_unranked :: test_case where
  "ex_unranked = \<lparr> name = Some ''c'', title = None, status = Some ''failed'',
      priority = Some ''urgent'', duration_ms = None, duration = None \<rparr>"

text \<open>The scenario of the specification: two modules, 13 of 15 tests passed.\<close>

definition ex_login :: module where
  "ex_login = \<lparr> module_name = ''login'', test_cases_run = Some 10, test_cases_passed = Some 8,
      test_cases_failed = Some 2, test_cases_skipped = Some 0,
      highest_priority_failed = Some 1, high_priority_failed = Some 1,
      medium_priority_failed = Some 0, low_priority_failed = Some 0,
      runenv = Some (PyStr ''sbx''), tests = [] \<rparr>"

definition ex_payments :: module where
  "ex_payments = \<lparr> module_name = ''payments'', test_cases_run = Some 5,
      test_cases_passed = Some 5, test_cases_failed = Some 0, test_cases_skipped = Some 0,
      highest_priority_failed = Some 0, high_priority_failed = Some 0,
      medium_priority_failed = Some 0, low_priority_failed = Some 0,
      runenv = Some (PyStr ''prod''), tests = [] \<rparr>"

text \<open>One module in which 23 of 40 tests passed.\<close>

definition ex_checkout :: module where
  "ex_checkout = \<lparr> module_name = ''checkout'', test_cases_run = Some 40,
      test_cases_passed = Some 23, test_cases_failed = Some 17, test_cases_skipped = Some 0,
      highest_priority_failed = Some 0, high_priority_failed = Some 0,
      medium_priority_failed = Some 17, low_priority_failed = Some 0,
      runenv = Some (PyStr ''sbx''), tests = [] \<rparr>"

text \<open>A test named \<open>a\<close> with the given \<^verbatim>\<open>duration_ms\<close>, and a module holding given tests.\<close>

definition ex_test_a :: "int option \<Rightarrow> test_case" where
  "ex_test_a d = \<lparr> name = Some ''a'', title = None, status = Some ''passed'',
      priority = Some ''high'', duration_ms = d, duration = None \<rparr>"

definition ex_module_of :: "test_case list \<Rightarrow> module" where
  "ex_module_of ts = \<lparr> module_name = ''login'', test_cases_run = Some (int (length ts)),
      test_cases_passed = Some (int (length ts)), test_cases_failed = Some 0,
      test_cases_skipped = Some 0,
      highest_priority_failed = Some 0, high_priority_failed = Some 0,
      medium_priority_failed = Some 0, low_priority_failed = Some 0,
      runenv = Some (PyStr ''sbx''), tests = ts \<rparr>"


definition ex_prev_single :: module where
  "ex_prev_single = ex_module_of [ex_test_a (Some 1000)]"

section \<open>Properties of the aggregation\<close>

lemma count_where_length: "count_where P ts = int (length (filter P ts))"
  by (induction ts) (simp_all add: count_where_def)

lemma count_where_Nil: "count_where P [] = 0"
  by (simp add: count_where_def)

lemma count_where_Cons: "count_where P (t # ts) = (if P t then 1 else 0) + count_where P ts"
  by (simp add: count_where_def)

lemma count_where_append: "count_where P (ts @ us) = count_where P ts + count_where P us"
  by (simp add: count_where_def)

lemma count_where_nonneg: "0 \<le> count_where P ts"
  by (simp add: count_where_length)

lemma status_partition:
  "count_where (status_is ''passed'') ts + count_where (status_is ''failed'') ts
   + count_where (status_is ''skipped'') ts + unknownCount ts = int (length ts)"
  by (induction ts) (auto simp: count_where_Nil count_where_Cons unknownCount_def status_is_def)

text \<open>
  C2.  For every sequence of outcomes of a module, the passed, failed and skipped counters
  (each counting the outcomes whose status is exactly that string) and the count of the
  outcomes with any other status add up to the number of outcomes, which is the
  module's \<open>test_cases_run\<close>.
\<close>

theorem counters_partition_tests_run:
  "get0 (test_cases_passed (parse_module r)) + get0 (test_cases_failed (parse_module r))
   + get0 (test_cases_skipped (parse_module r)) + unknownCount (row_tests r)
   = get0 (test_cases_run (parse_module r))
   \<and> get0 (test_cases_run (parse_module r)) = int (length (row_tests r))
   \<and> get0 (test_cases_passed (parse_module r))
       = int (length (filter (\<lambda>t. status t = Some ''passed'') (row_tests r)))
   \<and> get0 (test_cases_failed (parse_module r))
       = int (length (filter (\<lambda>t. status t = Some ''failed'') (row_tests r)))
   \<and> get0 (test_cases_skipped (parse_module r))
       = int (length (filter (\<lambda>t. status t = Some ''skipped'') (row_tests r)))
   \<and> unknownCount (row_tests r)
       = int (length (filter (\<lambda>t. status t \<noteq> Some ''passed'' \<and> status t \<noteq> Some ''failed''
                                  \<and> status t \<noteq> Some ''skipped'') (row_tests r)))"
proof -
  have eta: "status_is s = (\<lambda>t. status t = Some s)" for s
    by (rule ext) (simp add: status_is_def)
  have unk: "unknownCount ts
      = int (length (filter (\<lambda>t. status t \<noteq> Some ''passed'' \<and> status t \<noteq> Some ''failed''
                                  \<and> status t \<noteq> Some ''skipped'') ts))" for ts
    by (simp add: unknownCount_def count_where_length status_is_def)
  have sel: "get0 (test_cases_run (parse_module r)) = int (length (row_tests r))"
    "get0 (test_cases_passed (parse_module r)) = count_where (status_is ''passed'') (row_tests r)"
    "get0 (test_cases_failed (parse_module r)) = count_where (status_is ''failed'') (row_tests r)"
    "get0 (test_cases_skipped (parse_module r)) = count_where (status_is ''skipped'') (row_tests r)"
    by (simp_all add: parse_module_def get0_def Let_def)
  show ?thesis
    unfolding sel
    using status_partition [of "row_tests r"] unk [of "row_tests r"]
    by (simp add: count_where_length eta)
qed

lemma count_where_zero_iff: "count_where P ts = 0 \<longleftrightarrow> (\<forall>t\<in>set ts. \<not> P t)"
  by (simp add: count_where_length filter_empty_conv)

lemma bucket_split:
  "count_where (failed_with ''highest'') ts + count_where (failed_with ''high'') ts
   + count_where (failed_with ''medium'') ts + count_where (failed_with ''low'') ts
   + count_where (\<lambda>t. status_is ''failed'' t \<and> \<not> recognized_priority t) ts
   = count_where (status_is ''failed'') ts"
  by (induction ts)
     (auto simp: count_where_Nil count_where_Cons failed_with_def recognized_priority_def
        priority_is_def)

lemma parse_module_buckets:
  "priority_failed_sum (parse_module r)
   = count_where (failed_with ''highest'') (row_tests r)
     + count_where (failed_with ''high'') (row_tests r)
     + count_where (failed_with ''medium'') (row_tests r)
     + count_where (failed_with ''low'') (row_tests r)"
  "get0 (test_cases_failed (parse_module r)) = count_where (status_is ''failed'') (row_tests r)"
  by (simp_all add: parse_module_def priority_failed_sum_def get0_def Let_def)

lemma parse_module_append_unranked:
  assumes "status_is ''failed'' t \<and> \<not> recognized_priority t"
  shows "get0 (test_cases_failed (parse_module (r\<lparr>row_tests := row_tests r @ [t]\<rparr>)))
          = get0 (test_cases_failed (parse_module r)) + 1"
    and "get0 (highest_priority_failed (parse_module (r\<lparr>row_tests := row_tests r @ [t]\<rparr>)))
          = get0 (highest_priority_failed (parse_module r))"
    and "get0 (high_priority_failed (parse_module (r\<lparr>row_tests := row_tests r @ [t]\<rparr>)))
          = get0 (high_priority_failed (parse_module r))"
    and "get0 (medium_priority_failed (parse_module (r\<lparr>row_tests := row_tests r @ [t]\<rparr>)))
          = get0 (medium_priority_failed (parse_module r))"
    and "get0 (low_priority_failed (parse_module (r\<lparr>row_tests := row_tests r @ [t]\<rparr>)))
          = get0 (low_priority_failed (parse_module r))"
  using assms
  by (simp_all add: parse_module_def get0_def Let_def count_where_append count_where_Cons
      count_where_Nil failed_with_def recognized_priority_def)

text \<open>
  C3.  In every module summary the four priority-failure counts add up to at most
  \<open>test_cases_failed\<close>, with equality exactly when every failed outcome carries one of
  the four recognized priorities; one more failed outcome whose priority is unrecognized
  or absent raises \<open>test_cases_failed\<close> by one and leaves the four counts as they were.
\<close>

theorem priority_buckets_bounded_by_failed:
  "priority_failed_sum (parse_module r) \<le> get0 (test_cases_failed (parse_module r))
   \<and> (priority_failed_sum (parse_module r) = get0 (test_cases_failed (parse_module r))
        \<longleftrightarrow> (\<forall>t\<in>set (row_tests r). status_is ''failed'' t \<longrightarrow> recognized_priority t))
   \<and> (status_is ''failed'' t \<and> \<not> recognized_priority t \<longrightarrow>
        get0 (test_cases_failed (parse_module (r\<lparr>row_tests := row_tests r @ [t]\<rparr>)))
          = get0 (test_cases_failed (parse_module r)) + 1
        \<and> get0 (highest_priority_failed (parse_module (r\<lparr>row_tests := row_tests r @ [t]\<rparr>)))
          = get0 (highest_priority_failed (parse_module r))
        \<and> get0 (high_priority_failed (parse_module (r\<lparr>row_tests := row_tests r @ [t]\<rparr>)))
          = get0 (high_priority_failed (parse_module r))
        \<and> get0 (medium_priority_failed (parse_module (r\<lparr>row_tests := row_tests r @ [t]\<rparr>)))
          = get0 (medium_priority_failed (parse_module r))
        \<and> get0 (low_priority_failed (parse_module (r\<lparr>row_tests := row_tests r @ [t]\<rparr>)))
          = get0 (low_priority_failed (parse_module r)))"
proof (intro conjI impI)
  let ?u = "count_where (\<lambda>t. status_is ''failed'' t \<and> \<not> recognized_priority t) (row_tests r)"
  have split: "priority_failed_sum (parse_module r) + ?u = get0 (test_cases_failed (parse_module r))"
    using bucket_split [of "row_tests r"] by (simp add: parse_module_buckets)
  have "0 \<le> ?u" by (rule count_where_nonneg)
  with split show "priority_failed_sum (parse_module r) \<le> get0 (test_cases_failed (parse_module r))"
    by linarith
  have "priority_failed_sum (parse_module r) = get0 (test_cases_failed (parse_module r)) \<longleftrightarrow> ?u = 0"
    using split by linarith
  then show "priority_failed_sum (parse_module r) = get0 (test_cases_failed (parse_module r))
        \<longleftrightarrow> (\<forall>t\<in>set (row_tests r). status_is ''failed'' t \<longrightarrow> recognized_priority t)"
    by (simp add: count_where_zero_iff)
qed (rule parse_module_append_unranked, assumption)+

theorem priority_buckets_witness:
  "list_all (\<lambda>t. status_is ''failed'' t \<longrightarrow> recognized_priority t) (row_tests ex_row)
   \<and> priority_failed_sum (parse_module ex_row) = get0 (test_cases_failed (parse_module ex_row))
   \<and> status_is ''failed'' ex_unranked \<and> \<not> recognized_priority ex_unranked
   \<and> get0 (test_cases_failed (parse_module (ex_row\<lparr>row_tests := row_tests ex_row @ [ex_unranked]\<rparr>))) = 2
   \<and> get0 (high_priority_failed (parse_module (ex_row\<lparr>row_tests := row_tests ex_row @ [ex_unranked]\<rparr>))) = 1"
proof -
  have a: "\<forall>t\<in>set (row_tests ex_row). status_is ''failed'' t \<longrightarrow> recognized_priority t"
    by (simp add: ex_row_def status_is_def recognized_priority_def priority_is_def)
  have b: "status_is ''failed'' ex_unranked \<and> \<not> recognized_priority ex_unranked"
    by (simp add: ex_unranked_def status_is_def recognized_priority_def priority_is_def)
  have c: "get0 (test_cases_failed (parse_module ex_row)) = 1"
    "get0 (high_priority_failed (parse_module ex_row)) = 1"
    by (simp_all add: ex_row_def parse_module_def get0_def Let_def count_where_def status_is_def
        failed_with_def priority_is_def)
  from priority_buckets_bounded_by_failed [of ex_row ex_unranked] a b c show ?thesis
    by (simp add: list_all_iff)
qed

section \<open>Properties of the number model\<close>

lemma ilog2_ge1:
  assumes "1 \<le> x" "2 powi e \<le> x" "x < 2 powi (e + 1)"
  shows "ilog2 x = e"
proof -
  let ?n = "\<lfloor>x\<rfloor>"
  have n: "0 < ?n" using assms(1) by simp
  have e0: "0 \<le> e"
  proof (rule ccontr)
    assume "\<not> 0 \<le> e"
    then have "e + 1 \<le> 0" by simp
    then have "(2::rat) powi (e + 1) \<le> 1"
      by (simp add: power_int_def inverse_eq_divide field_simps)
    with assms show False by simp
  qed
  from bitlen_bounds [OF n]
  have lo: "2 ^ nat (bitlen ?n - 1) \<le> ?n" and hi: "?n < 2 ^ nat (bitlen ?n)" by simp_all
  have b1: "1 \<le> bitlen ?n" using n by (simp add: bitlen_alt_def)
  have "(2::int) ^ nat e \<le> ?n"
  proof -
    have "of_int ((2::int) ^ nat e) \<le> x" using assms(2) e0 by (simp add: power_int_def)
    then show ?thesis by (simp only: le_floor_iff)
  qed
  with hi have "(2::int) ^ nat e < 2 ^ nat (bitlen ?n)" by linarith
  then have "nat e < nat (bitlen ?n)" by (simp add: power_strict_increasing_iff)
  then have A: "e \<le> bitlen ?n - 1" using e0 by linarith
  have "of_int ?n \<le> x" by simp
  then have "of_int ?n < (2::rat) powi (e + 1)" using assms(3) by linarith
  then have "of_int ?n < (of_int (2 ^ nat (e + 1)) :: rat)" using e0 by (simp add: power_int_def)
  then have "?n < 2 ^ nat (e + 1)" by (simp only: of_int_less_iff)
  with lo have "(2::int) ^ nat (bitlen ?n - 1) < 2 ^ nat (e + 1)" by linarith
  then have "nat (bitlen ?n - 1) < nat (e + 1)" by (simp add: power_strict_increasing_iff)
  then have B: "bitlen ?n - 1 \<le> e" using b1 by linarith
  from A B show ?thesis using assms(1) by (simp add: ilog2_def)
qed

lemma ilog2_lt1:
  assumes "0 < x" "x < 1" "2 powi e \<le> x" "x < 2 powi (e + 1)"
  shows "ilog2 x = e"
proof -
  let ?y = "1 / x"
  let ?m = "\<lceil>?y\<rceil> - 1"
  have y1: "1 < ?y" using assms(1,2) by (simp add: field_simps)
  have e0: "e + 1 \<le> 0"
  proof (rule ccontr)
    assume "\<not> e + 1 \<le> 0"
    then have "0 \<le> e" by simp
    then have "1 \<le> (2::rat) powi e" by (simp add: power_int_def)
    with assms show False by simp
  qed
  have m: "0 < ?m" using y1 by (simp add: less_ceiling_iff)
  from bitlen_bounds [OF m]
  have lo: "2 ^ nat (bitlen ?m - 1) \<le> ?m" and hi: "?m < 2 ^ nat (bitlen ?m)" by simp_all
  have b1: "1 \<le> bitlen ?m" using m by (simp add: bitlen_alt_def)
  have p1: "(2::rat) powi e = 1 / 2 ^ nat (- e)" using e0
    by (simp add: power_int_def inverse_eq_divide power_one_over)
  have "nat (- (e + 1)) = nat (- e - 1)" by simp
  then have p2: "(2::rat) powi (e + 1) = 1 / 2 ^ nat (- e - 1)" using e0
    by (simp add: power_int_def inverse_eq_divide power_one_over)
  have yle: "?y \<le> 2 ^ nat (- e)"
    using assms(1,3) unfolding p1 by (simp add: field_simps)
  have ygt: "2 ^ nat (- e - 1) < ?y"
    using assms(1,4) unfolding p2 by (simp add: field_simps)
  have "of_int ?m < ?y" using ceiling_correct [of ?y] by simp
  then have "of_int ?m < (of_int (2 ^ nat (- e)) :: rat)" using yle by simp
  then have "?m < 2 ^ nat (- e)" by (simp only: of_int_less_iff)
  with lo have "(2::int) ^ nat (bitlen ?m - 1) < 2 ^ nat (- e)" by linarith
  then have "nat (bitlen ?m - 1) < nat (- e)" by (simp add: power_strict_increasing_iff)
  then have A: "bitlen ?m \<le> - e" using b1 by linarith
  have "(of_int (2 ^ nat (- e - 1)) :: rat) < ?y" using ygt by simp
  then have "2 ^ nat (- e - 1) < \<lceil>?y\<rceil>" by (simp only: less_ceiling_iff)
  then have "(2::int) ^ nat (- e - 1) \<le> ?m" by linarith
  with hi have "(2::int) ^ nat (- e - 1) < 2 ^ nat (bitlen ?m)" by linarith
  then have "nat (- e - 1) < nat (bitlen ?m)" by (simp add: power_strict_increasing_iff)
  then have B: "- e \<le> bitlen ?m" using e0 by linarith
  from A B show ?thesis using assms(2) by (simp add: ilog2_def)
qed

lemma ilog2_unique:
  assumes "2 powi e \<le> x" "x < 2 powi (e + 1)"
  shows "ilog2 x = e"
proof -
  have "0 < (2::rat) powi e" by simp
  with assms(1) have "0 < x" by linarith
  then show ?thesis using assms ilog2_ge1 [of x e] ilog2_lt1 [of x e] by (cases "1 \<le> x") auto
qed

lemma binary64_normal:
  assumes "2 ^ 52 \<le> \<bar>x\<bar> / 2 powi q" "\<bar>x\<bar> / 2 powi q < 2 ^ 53" "- 1074 \<le> q"
  shows "binary64 x = of_int (round_half_even (x / 2 powi q)) * 2 powi q"
proof -
  have pos: "0 < (2::rat) powi q" by simp
  have "(2::rat) powi (q + 52) = 2 powi q * 2 ^ 52"
    by (simp add: power_int_add)
  moreover have "(2::rat) powi (q + 52 + 1) = 2 powi q * 2 ^ 53"
    by (simp add: power_int_add)
  ultimately have "2 powi (q + 52) \<le> \<bar>x\<bar>" "\<bar>x\<bar> < 2 powi (q + 52 + 1)"
    using assms(1,2) pos by (simp_all add: field_simps)
  then have "ilog2 \<bar>x\<bar> = q + 52" by (rule ilog2_unique)
  moreover have "x \<noteq> 0" using assms(1) by auto
  ultimately show ?thesis using assms(3) by (simp add: binary64_def Let_def max_def)
qed

lemma round_half_even_near:
  assumes "\<bar>x - of_int n\<bar> < 1 / 2"
  shows "round_half_even x = n"
proof -
  have fl: "\<lfloor>x\<rfloor> = n \<or> \<lfloor>x\<rfloor> = n - 1"
  proof -
    have "of_int n - 1 \<le> x" "x < of_int n + 1" using assms by linarith+
    then have "of_int (n - 1) \<le> x" "x < of_int (n + 1)" by simp_all
    then have "n - 1 \<le> \<lfloor>x\<rfloor>" "\<lfloor>x\<rfloor> < n + 1" by (simp_all only: le_floor_iff floor_less_iff)
    then show ?thesis by linarith
  qed
  then show ?thesis
  proof
    assume f: "\<lfloor>x\<rfloor> = n"
    then have g: "(of_int \<lfloor>x\<rfloor> :: rat) = of_int n" by simp
    have "x - of_int \<lfloor>x\<rfloor> < 1 / 2" unfolding g using assms by linarith
    then show ?thesis using f by (simp add: round_half_even_def Let_def)
  next
    assume f: "\<lfloor>x\<rfloor> = n - 1"
    then have g: "(of_int \<lfloor>x\<rfloor> :: rat) = of_int n - 1" by simp
    have "1 / 2 < x - of_int \<lfloor>x\<rfloor>" unfolding g using assms by linarith
    then show ?thesis using f by (simp add: round_half_even_def Let_def)
  qed
qed

lemma binary64_eval:
  assumes "2 ^ 52 \<le> \<bar>x\<bar> / 2 powi q" "\<bar>x\<bar> / 2 powi q < 2 ^ 53" "- 1074 \<le> q"
    and "\<bar>x / 2 powi q - of_int m\<bar> < 1 / 2"
  shows "binary64 x = of_int m * 2 powi q"
  using binary64_normal [OF assms(1-3)] round_half_even_near [OF assms(4)] by simp

lemma round_half_even_tie:
  assumes "x = of_int n + 1 / 2"
  shows "round_half_even x = (if even n then n else n + 1)"
proof -
  have "\<lfloor>x\<rfloor> = n" unfolding assms by (rule floor_unique) simp_all
  then show ?thesis using assms by (simp add: round_half_even_def Let_def)
qed

lemma to_float_eval:
  assumes "2 ^ 52 \<le> \<bar>x\<bar> / 2 powi q" "\<bar>x\<bar> / 2 powi q < 2 ^ 53" "- 1074 \<le> q"
    and "\<bar>x / 2 powi q - of_int m\<bar> < 1 / 2"
    and "\<bar>of_int m * 2 powi q\<bar> < (2::rat) ^ 1024"
  shows "to_float x = Fin (of_int m * 2 powi q)"
proof -
  have "binary64 x = of_int m * 2 powi q" using assms(1-4) by (rule binary64_eval)
  then show ?thesis using assms(5) by (simp add: to_float_def Let_def abs_less_iff)
qed

lemma true_div_23_40: "true_div 23 40 = Inr (Fin (2589569785738035 / 4503599627370496))"
proof -
  have "to_float (23 / 40) = Fin (2589569785738035 / 4503599627370496)"
    using to_float_eval [of "23 / 40" "- 53" 5179139571476070] by simp
  then show ?thesis by (simp add: true_div_def)
qed

lemma times_100_23_40:
  "times_100 (Fin (2589569785738035 / 4503599627370496)) = Fin (8092405580431359 / 140737488355328)"
proof -
  have "to_float (64739244643450875 / 1125899906842624) = Fin (8092405580431359 / 140737488355328)"
    using to_float_eval [of "64739244643450875 / 1125899906842624" "- 47" 8092405580431359] by simp
  then show ?thesis by (simp add: times_100_def)
qed

lemma py_round_23_40: "py_round (Fin (8092405580431359 / 140737488355328)) = Inr 57"
proof -
  have "round_half_even (8092405580431359 / 140737488355328) = 57"
    by (rule round_half_even_near) simp
  then show ?thesis by (simp add: py_round_def)
qed

lemma pass_rate_of_23_40: "pass_rate_of 23 40 = Inr 57"
  by (simp add: pass_rate_of_def true_div_23_40 times_100_23_40 py_round_23_40)

lemma true_div_2300_40: "true_div 2300 40 = Inr (Fin (115 / 2))"
proof -
  have "to_float (115 / 2) = Fin (115 / 2)"
    using to_float_eval [of "115 / 2" "- 47" 8092405580431360] by simp
  then show ?thesis by (simp add: true_div_def)
qed

lemma py_round_115_2: "py_round (Fin (115 / 2)) = Inr 58"
  using round_half_even_tie [of "115 / 2" 57] by (simp add: py_round_def)

lemma pass_rate_of_7_9: "pass_rate_of 7 9 = Inr 78"
proof -
  have a: "to_float (7 / 9) = Fin (7005599420354105 / 9007199254740992)"
    using to_float_eval [of "7 / 9" "- 53" 7005599420354105] by simp
  have b: "to_float (175139985508852625 / 2251799813685248) = Fin (5473124547151645 / 70368744177664)"
    using to_float_eval [of "175139985508852625 / 2251799813685248" "- 46" 5473124547151645] by simp
  have c: "round_half_even (5473124547151645 / 70368744177664) = 78"
    by (rule round_half_even_near) simp
  show ?thesis by (simp add: pass_rate_of_def true_div_def a times_100_def b py_round_def c)
qed

lemma pass_rate_of_no_tests: "tt \<le> 0 \<Longrightarrow> pass_rate_of tp tt = Inr 0"
  by (simp add: pass_rate_of_def)


lemma ilog2_bounds:
  assumes "0 < x"
  shows "2 powi ilog2 x \<le> x \<and> x < 2 powi (ilog2 x + 1)"
proof (cases "1 \<le> x")
  case True
  let ?n = "\<lfloor>x\<rfloor>"
  have n: "0 < ?n" using True by simp
  from bitlen_bounds [OF n]
  have lo: "2 ^ nat (bitlen ?n - 1) \<le> ?n" and hi: "?n < 2 ^ nat (bitlen ?n)" by simp_all
  have b1: "1 \<le> bitlen ?n" using n by (simp add: bitlen_alt_def)
  have il: "ilog2 x = bitlen ?n - 1" using True by (simp add: ilog2_def)
  have "(of_int (2 ^ nat (bitlen ?n - 1)) :: rat) \<le> of_int ?n" using lo by (simp only: of_int_le_iff)
  also have "\<dots> \<le> x" by simp
  finally have A: "2 powi (bitlen ?n - 1) \<le> x" using b1 by (simp add: power_int_def)
  have "?n + 1 \<le> 2 ^ nat (bitlen ?n)" using hi by simp
  then have "(of_int (?n + 1) :: rat) \<le> of_int (2 ^ nat (bitlen ?n))" by (simp only: of_int_le_iff)
  moreover have "x < of_int (?n + 1)" by simp linarith
  ultimately have "x < (of_int (2 ^ nat (bitlen ?n)) :: rat)" by linarith
  then have B: "x < 2 powi (bitlen ?n - 1 + 1)" using b1 by (simp add: power_int_def)
  from A B show ?thesis unfolding il by simp
next
  case False
  let ?y = "1 / x"
  let ?m = "\<lceil>?y\<rceil> - 1"
  have y1: "1 < ?y" using assms False by (simp add: field_simps)
  have m: "0 < ?m" using y1 by (simp add: less_ceiling_iff)
  from bitlen_bounds [OF m]
  have lo: "2 ^ nat (bitlen ?m - 1) \<le> ?m" and hi: "?m < 2 ^ nat (bitlen ?m)" by simp_all
  have b1: "1 \<le> bitlen ?m" using m by (simp add: bitlen_alt_def)
  have il: "ilog2 x = - bitlen ?m" using False by (simp add: ilog2_def)
  have my: "of_int ?m < ?y" using ceiling_correct [of ?y] by simp
  have ym: "?y \<le> of_int (?m + 1)" by simp
  have "?m + 1 \<le> 2 ^ nat (bitlen ?m)" using hi by simp
  then have "(of_int (?m + 1) :: rat) \<le> of_int (2 ^ nat (bitlen ?m))" by (simp only: of_int_le_iff)
  with ym have "?y \<le> of_int (2 ^ nat (bitlen ?m))" by linarith
  then have "?y \<le> 2 ^ nat (bitlen ?m)" by simp
  then have "1 / 2 ^ nat (bitlen ?m) \<le> x" using assms by (simp add: field_simps)
  moreover have "(2::rat) powi (- bitlen ?m) = 1 / 2 ^ nat (bitlen ?m)" using b1
    by (simp add: power_int_def inverse_eq_divide power_one_over)
  ultimately have A: "2 powi (- bitlen ?m) \<le> x" by simp
  have "(of_int (2 ^ nat (bitlen ?m - 1)) :: rat) \<le> of_int ?m" using lo by (simp only: of_int_le_iff)
  with my have "of_int (2 ^ nat (bitlen ?m - 1)) < ?y" by linarith
  then have "2 ^ nat (bitlen ?m - 1) < ?y" by simp
  then have "x < 1 / 2 ^ nat (bitlen ?m - 1)" using assms by (simp add: field_simps)
  moreover have "(2::rat) powi (- bitlen ?m + 1) = 1 / 2 ^ nat (bitlen ?m - 1)"
  proof (cases "bitlen ?m = 1")
    case True
    then show ?thesis by simp
  next
    case False
    then have "- bitlen ?m + 1 < 0" using b1 by simp
    moreover have "nat (- (- bitlen ?m + 1)) = nat (bitlen ?m - 1)" by simp
    ultimately show ?thesis
      by (simp add: power_int_def inverse_eq_divide power_one_over)
  qed
  ultimately have B: "x < 2 powi (- bitlen ?m + 1)" by simp
  from A B show ?thesis unfolding il by simp
qed

lemma round_half_even_error: "\<bar>of_int (round_half_even x) - x\<bar> \<le> 1 / 2"
proof -
  have "of_int \<lfloor>x\<rfloor> \<le> x" "x < of_int \<lfloor>x\<rfloor> + 1" by linarith+
  then show ?thesis
    by (auto simp: round_half_even_def Let_def) 
qed

lemma binary64_error:
  assumes "2 powi (- 1022) \<le> \<bar>x\<bar>"
  shows "\<bar>binary64 x - x\<bar> \<le> \<bar>x\<bar> / 2 ^ 53"
proof -
  have pos: "0 < \<bar>x\<bar>"
  proof -
    have "0 < (2::rat) powi (- 1022)" by (rule zero_less_power_int) simp
    with assms show ?thesis by linarith
  qed
  then have x0: "x \<noteq> 0" by simp
  define e where "e = ilog2 \<bar>x\<bar>"
  have lo: "2 powi e \<le> \<bar>x\<bar>" and hi: "\<bar>x\<bar> < 2 powi (e + 1)"
    using ilog2_bounds [OF pos] by (simp_all add: e_def)
  have e: "- 1022 \<le> e"
  proof (rule ccontr)
    assume "\<not> - 1022 \<le> e"
    then have "e + 1 \<le> - 1022" by simp
    then have "(2::rat) powi (e + 1) \<le> 2 powi (- 1022)" by (rule power_int_increasing) simp
    with assms hi show False by linarith
  qed
  define q where "q = e - 52"
  have qpos: "0 < (2::rat) powi q" by (rule zero_less_power_int) simp
  have mx: "max (e - 52) (- 1074) = q" using e by (simp add: q_def)
  have b: "binary64 x = of_int (round_half_even (x / 2 powi q)) * 2 powi q"
    unfolding binary64_def Let_def e_def [symmetric] by (simp only: mx x0 if_False)
  have "binary64 x - x = (of_int (round_half_even (x / 2 powi q)) - x / 2 powi q) * 2 powi q"
    unfolding b using qpos by (simp add: field_simps)
  then have "\<bar>binary64 x - x\<bar> = \<bar>of_int (round_half_even (x / 2 powi q)) - x / 2 powi q\<bar> * 2 powi q"
    using qpos by (simp add: abs_mult)
  also have "\<dots> \<le> 1 / 2 * 2 powi q"
    using round_half_even_error [of "x / 2 powi q"] qpos by (intro mult_right_mono) simp_all
  also have "1 / 2 * (2::rat) powi q = 2 powi e / 2 ^ 53"
  proof -
    have "(2::rat) powi e = 2 powi (q + 52)" by (simp add: q_def)
    also have "\<dots> = 2 powi q * 2 ^ 52" by (simp add: power_int_add)
    finally show ?thesis by simp
  qed
  also have "\<dots> \<le> \<bar>x\<bar> / 2 ^ 53" using lo by (simp add: divide_right_mono)
  finally show ?thesis .
qed

lemma to_float_in_range:
  assumes "2 powi (- 1022) \<le> \<bar>x\<bar>" "\<bar>x\<bar> \<le> 2 ^ 1023"
  shows "to_float x = Fin (binary64 x)"
proof -
  have "\<bar>binary64 x - x\<bar> \<le> \<bar>x\<bar> / 2 ^ 53" using assms(1) by (rule binary64_error)
  then have A: "\<bar>binary64 x\<bar> \<le> \<bar>x\<bar> + \<bar>x\<bar> / 2 ^ 53" by linarith
  have B: "\<bar>x\<bar> + \<bar>x\<bar> / 2 ^ 53 \<le> 2 ^ 1023 + 2 ^ 1023 / 2 ^ 53"
    using assms(2) by (intro add_mono divide_right_mono) simp_all
  have C: "(2::rat) ^ 1023 + 2 ^ 1023 / 2 ^ 53 < 2 ^ 1024" by simp
  from A B C have "\<bar>binary64 x\<bar> < 2 ^ 1024" by linarith
  then show ?thesis by (simp add: to_float_def Let_def abs_less_iff)
qed

lemma percent_change_accurate:
  assumes "a \<noteq> 0" "0 < b" "\<bar>a\<bar> < 2 ^ 1000" "b < 2 ^ 1000"
  shows "\<exists>pc. map_sum id times_100 (true_div a b) = Inr (Fin pc)
           \<and> \<bar>pc - 100 * of_int a / of_int b\<bar> \<le> \<bar>100 * of_int a / of_int b\<bar> / 2 ^ 51"
proof -
  define x :: rat where "x = of_int a / of_int b"
  define q where "q = binary64 x"
  define pc where "pc = binary64 (q * 100)"
  have b1: "(1::rat) \<le> of_int b" using assms(2) by simp
  have bU: "(of_int b :: rat) \<le> 2 ^ 1000"
  proof -
    have "b \<le> 2 ^ 1000" using assms(4) by simp
    then have "(of_int b :: rat) \<le> of_int (2 ^ 1000)" by (simp only: of_int_le_iff)
    then show ?thesis by simp
  qed
  have a1: "(1::rat) \<le> \<bar>of_int a\<bar>"
  proof -
    have "1 \<le> \<bar>a\<bar>" using assms(1) by simp
    then have "(of_int 1 :: rat) \<le> of_int \<bar>a\<bar>" by (simp only: of_int_le_iff)
    then show ?thesis by simp
  qed
  have aU: "\<bar>of_int a :: rat\<bar> \<le> 2 ^ 1000"
  proof -
    have "\<bar>a\<bar> \<le> 2 ^ 1000" using assms(3) by simp
    then have "(of_int \<bar>a\<bar> :: rat) \<le> of_int (2 ^ 1000)" by (simp only: of_int_le_iff)
    then show ?thesis by simp
  qed
  have ax: "\<bar>x\<bar> = \<bar>of_int a\<bar> / of_int b" using b1 by (simp add: x_def)
  have xL: "1 / 2 ^ 1000 \<le> \<bar>x\<bar>"
  proof -
    have "1 / 2 ^ 1000 \<le> 1 / (of_int b :: rat)" using b1 bU by (simp add: field_simps)
    also have "\<dots> \<le> \<bar>of_int a\<bar> / of_int b" using a1 b1 by (simp add: divide_right_mono)
    finally show ?thesis by (simp only: ax)
  qed
  have xU: "\<bar>x\<bar> \<le> 2 ^ 1000"
  proof -
    have "\<bar>of_int a :: rat\<bar> / of_int b \<le> \<bar>of_int a\<bar> / 1" using b1
      by (intro divide_left_mono) simp_all
    then show ?thesis using aU by (simp add: ax)
  qed
  have small: "(2::rat) powi (- 1022) \<le> 1 / 2 ^ 1000" by simp
  have x_lo: "2 powi (- 1022) \<le> \<bar>x\<bar>" using small xL by linarith
  have x_hi: "\<bar>x\<bar> \<le> 2 ^ 1023" using xU by simp
  have e1: "\<bar>q - x\<bar> \<le> \<bar>x\<bar> / 2 ^ 53" unfolding q_def using x_lo by (rule binary64_error)
  have fq: "to_float x = Fin q" unfolding q_def using x_lo x_hi by (rule to_float_in_range)
  have half: "\<bar>x\<bar> / 2 ^ 53 \<le> \<bar>x\<bar> / 2" by simp
  have qL: "\<bar>x\<bar> / 2 \<le> \<bar>q\<bar>" using e1 half by linarith
  have qU: "\<bar>q\<bar> \<le> \<bar>x\<bar> + \<bar>x\<bar> / 2 ^ 53" using e1 by linarith
  have aq: "\<bar>q * 100\<bar> = 100 * \<bar>q\<bar>" by (simp add: abs_mult)
  have p_lo: "2 powi (- 1022) \<le> \<bar>q * 100\<bar>"
  proof -
    have "(2::rat) powi (- 1022) \<le> 50 * (1 / 2 ^ 1000)" by simp
    also have "\<dots> \<le> 50 * \<bar>x\<bar>" using xL by (intro mult_left_mono) simp_all
    also have "\<dots> \<le> 100 * \<bar>q\<bar>" using qL by linarith
    finally show ?thesis by (simp only: aq)
  qed
  have p_hi: "\<bar>q * 100\<bar> \<le> 2 ^ 1023"
  proof -
    have "100 * \<bar>q\<bar> \<le> 200 * \<bar>x\<bar>" using qU half by linarith
    also have "\<dots> \<le> 200 * 2 ^ 1000" using xU by (intro mult_left_mono) simp_all
    also have "\<dots> \<le> (2::rat) ^ 1023" by simp
    finally show ?thesis by (simp only: aq)
  qed
  have e2: "\<bar>pc - q * 100\<bar> \<le> \<bar>q * 100\<bar> / 2 ^ 53"
    unfolding pc_def using p_lo by (rule binary64_error)
  have fp: "to_float (q * 100) = Fin pc" unfolding pc_def using p_lo p_hi by (rule to_float_in_range)
  have td: "true_div a b = Inr (Fin q)"
    using assms(2) fq by (simp add: true_div_def x_def)
  have res: "map_sum id times_100 (true_div a b) = Inr (Fin pc)"
    by (simp add: td times_100_def fp)
  have e2': "\<bar>pc - q * 100\<bar> \<le> 100 * \<bar>q\<bar> / 2 ^ 53" using e2 by (simp only: aq)
  have s1: "100 * \<bar>q\<bar> / 2 ^ 53 \<le> 100 * (\<bar>x\<bar> + \<bar>x\<bar> / 2 ^ 53) / 2 ^ 53"
    using qU by (simp add: divide_right_mono)
  have s2: "\<bar>q * 100 - 100 * x\<bar> \<le> 100 * (\<bar>x\<bar> / 2 ^ 53)"
  proof -
    have "q * 100 - 100 * x = 100 * (q - x)" by (simp add: algebra_simps)
    then have "\<bar>q * 100 - 100 * x\<bar> = \<bar>100 * (q - x)\<bar>" by (simp only:)
    also have "\<dots> = 100 * \<bar>q - x\<bar>" by (simp only: abs_mult abs_numeral)
    finally have "\<bar>q * 100 - 100 * x\<bar> = 100 * \<bar>q - x\<bar>" .
    then show ?thesis using e1 by linarith
  qed
  have tri: "\<bar>pc - 100 * x\<bar> \<le> \<bar>pc - q * 100\<bar> + \<bar>q * 100 - 100 * x\<bar>" by linarith
  have s3: "100 * (\<bar>x\<bar> + \<bar>x\<bar> / 2 ^ 53) / 2 ^ 53 + 100 * (\<bar>x\<bar> / 2 ^ 53) \<le> 100 * \<bar>x\<bar> / 2 ^ 51"
  proof -
    have "0 \<le> \<bar>x\<bar>" by simp
    then show ?thesis by (simp add: field_simps)
  qed
  have "\<bar>pc - 100 * x\<bar> \<le> 100 * \<bar>x\<bar> / 2 ^ 51" using tri e2' s1 s2 s3 by linarith
  moreover have "100 * x = 100 * of_int a / of_int b" by (simp add: x_def)
  moreover have "100 * \<bar>x\<bar> = \<bar>100 * of_int a / of_int b\<bar>" by (simp add: x_def abs_mult)
  ultimately have "\<bar>pc - 100 * of_int a / of_int b\<bar> \<le> \<bar>100 * of_int a / of_int b\<bar> / 2 ^ 51"
    by (simp only:)
  with res show ?thesis by blast
qed

section \<open>Properties of the run summary\<close>

lemma summary_checkout:
  "calculate_summary [ex_checkout]
   = Inr \<lparr> total_modules = 1, total_tests = 40, total_passed = 23, total_failed = 17,
            total_skipped = 0, pass_rate = 57 \<rparr>"
  by (simp add: calculate_summary_def ex_checkout_def get0_def pass_rate_of_23_40)

text \<open>
  C1.  The pass rate is stated to be \<open>round(100 * totalPassed / totalTests)\<close> for every
  module collection with tests.  For one module with 23 of 40 tests passed the exact
  percentage is \<open>57.5\<close>, which rounds to \<open>58\<close>, also when the stated expression is
  evaluated in Python's own arithmetic; the code divides first, multiplies the rounded
  quotient by 100, and returns \<open>57\<close>.
\<close>

theorem pass_rate_23_of_40:
  "map_sum id pass_rate (calculate_summary [ex_checkout]) = Inr 57
   \<and> round_half_even (100 * 23 / 40) = 58
   \<and> (case true_div (100 * 23) 40 of Inl e \<Rightarrow> Inl e | Inr q \<Rightarrow> py_round q) = Inr 58"
proof -
  have "round_half_even (100 * 23 / 40) = 58"
    using round_half_even_tie [of "100 * 23 / 40" 57] by simp
  then show ?thesis
    by (simp add: summary_checkout true_div_2300_40 py_round_115_2)
qed

lemma sum_list_map_mset:
  assumes "mset xs = mset ys"
  shows "sum_list (map f xs) = (sum_list (map f ys) :: int)"
proof -
  have "sum_mset (mset (map f xs)) = sum_mset (mset (map f ys))"
    using assms by (simp only: mset_map)
  then show ?thesis by (simp only: sum_mset_sum_list)
qed

lemma calculate_summary_mset:
  assumes "mset xs = mset ys"
  shows "calculate_summary xs = calculate_summary ys"
proof -
  have "length xs = length ys" using assms by (rule mset_eq_length)
  then show ?thesis
    by (simp add: calculate_summary_def Let_def sum_list_map_mset [OF assms] split: sum.split)
qed

lemma pass_rate_of_13_15: "pass_rate_of 13 15 = Inr 87"
proof -
  have a: "to_float (13 / 15) = Fin (1951559838527215 / 2251799813685248)"
    using to_float_eval [of "13 / 15" "- 53" 7806239354108860] by simp
  have b: "to_float (48788995963180375 / 562949953421312) = Fin (6098624495397547 / 70368744177664)"
    using to_float_eval [of "48788995963180375 / 562949953421312" "- 46" 6098624495397547] by simp
  have c: "round_half_even (6098624495397547 / 70368744177664) = 87"
    by (rule round_half_even_near) simp
  show ?thesis by (simp add: pass_rate_of_def true_div_def a times_100_def b py_round_def c)
qed

lemma summary_login_payments:
  "calculate_summary [ex_login, ex_payments]
   = Inr \<lparr> total_modules = 2, total_tests = 15, total_passed = 13, total_failed = 2,
            total_skipped = 0, pass_rate = 87 \<rparr>"
  by (simp add: calculate_summary_def ex_login_def ex_payments_def get0_def pass_rate_of_13_15)

text \<open>
  C8.  The run summary (module count, the four totals and the pass rate, or the error
  raised while computing it) of a permutation of a module sequence is the summary of the
  sequence.
\<close>

theorem summary_permutation_invariant:
  "mset ms' = mset ms \<Longrightarrow> calculate_summary ms' = calculate_summary ms"
  by (rule calculate_summary_mset)

theorem summary_permutation_witness:
  "mset [ex_payments, ex_login] = mset [ex_login, ex_payments]
   \<and> calculate_summary [ex_payments, ex_login]
       = Inr \<lparr> total_modules = 2, total_tests = 15, total_passed = 13, total_failed = 2,
                total_skipped = 0, pass_rate = 87 \<rparr>"
proof -
  have h: "mset [ex_payments, ex_login] = mset [ex_login, ex_payments]" by simp
  have "calculate_summary [ex_payments, ex_login] = calculate_summary [ex_login, ex_payments]"
    using h by (rule summary_permutation_invariant)
  then have "calculate_summary [ex_payments, ex_login]
       = Inr \<lparr> total_modules = 2, total_tests = 15, total_passed = 13, total_failed = 2,
                total_skipped = 0, pass_rate = 87 \<rparr>"
    by (simp only: summary_login_payments)
  with h show ?thesis by (rule conjI)
qed

text \<open>
  C10.  For a non-empty module sequence the environment label is the \<open>runenv\<close> value of
  the first module alone, \<open>Unknown\<close> when that key is absent.  Hence a reordering that
  brings a module with another \<open>runenv\<close> value to the front changes the label, while
  the run summary stays the same.
\<close>

theorem environment_from_first_module:
  "run_env (m # ms) = (case runenv m of None \<Rightarrow> PyStr ''Unknown'' | Some v \<Rightarrow> v)
   \<and> (mset (m' # ms') = mset (m # ms) \<and> get_runenv m' \<noteq> get_runenv m
        \<longrightarrow> run_env (m' # ms') \<noteq> run_env (m # ms)
            \<and> calculate_summary (m' # ms') = calculate_summary (m # ms))"
proof (intro conjI impI)
  show "run_env (m # ms) = (case runenv m of None \<Rightarrow> PyStr ''Unknown'' | Some v \<Rightarrow> v)"
    by (simp add: run_env_def get_runenv_def)
next
  assume h: "mset (m' # ms') = mset (m # ms) \<and> get_runenv m' \<noteq> get_runenv m"
  then have "get_runenv m' \<noteq> get_runenv m" by (rule conjunct2)
  then show "run_env (m' # ms') \<noteq> run_env (m # ms)"
    by (simp add: run_env_def)
  from h have "mset (m' # ms') = mset (m # ms)" by (rule conjunct1)
  then show "calculate_summary (m' # ms') = calculate_summary (m # ms)"
    by (rule calculate_summary_mset)
qed

theorem environment_from_first_module_witness:
  "mset [ex_payments, ex_login] = mset [ex_login, ex_payments]
   \<and> get_runenv ex_payments \<noteq> get_runenv ex_login
   \<and> run_env [ex_login, ex_payments] = PyStr ''sbx''
   \<and> run_env [ex_payments, ex_login] = PyStr ''prod''
   \<and> run_env [ex_payments, ex_login] \<noteq> run_env [ex_login, ex_payments]
   \<and> calculate_summary [ex_payments, ex_login] = calculate_summary [ex_login, ex_payments]"
proof -
  have h: "mset [ex_payments, ex_login] = mset [ex_login, ex_payments]" by simp
  have g: "get_runenv ex_payments \<noteq> get_runenv ex_login"
    by (simp add: get_runenv_def ex_login_def ex_payments_def)
  have e: "run_env [ex_login, ex_payments] = PyStr ''sbx''" "run_env [ex_payments, ex_login] = PyStr ''prod''"
    by (simp_all add: run_env_def get_runenv_def ex_login_def ex_payments_def)
  have "run_env [ex_payments, ex_login] \<noteq> run_env [ex_login, ex_payments]
      \<and> calculate_summary [ex_payments, ex_login] = calculate_summary [ex_login, ex_payments]"
    using environment_from_first_module [of ex_login "[ex_payments]" ex_payments "[ex_login]"] h g
    by blast
  with h g e show ?thesis by blast
qed

section \<open>Properties of the per-test comparison\<close>

lemma to_float_zero: "to_float 0 = Fin 0"
  by (simp add: to_float_def binary64_def)

lemma percent_change_zero: "b \<noteq> 0 \<Longrightarrow> map_sum id times_100 (true_div 0 b) = Inr (Fin 0)"
  by (simp add: true_div_def to_float_zero times_100_def)

lemma percent_change_in_range:
  assumes "0 < b" "\<bar>a\<bar> < 2 ^ 1000" "b < 2 ^ 1000"
  shows "\<exists>pc. map_sum id times_100 (true_div a b) = Inr (Fin pc)
           \<and> \<bar>pc - 100 * of_int a / of_int b\<bar> \<le> \<bar>100 * of_int a / of_int b\<bar> / 2 ^ 51"
proof (cases "a = 0")
  case True
  then show ?thesis using assms(1) by (simp add: percent_change_zero)
next
  case False
  then show ?thesis using assms by (rule percent_change_accurate)
qed

lemma true_div_in_range:
  assumes "0 < b" "\<bar>a\<bar> < 2 ^ 1000" "b < 2 ^ 1000"
  shows "\<exists>q. true_div a b = Inr q"
proof -
  obtain pc where "map_sum id times_100 (true_div a b) = Inr (Fin pc)"
    using percent_change_in_range [OF assms] by blast
  then show ?thesis by (cases "true_div a b") simp_all
qed

lemma seconds_in_range:
  assumes "\<bar>n\<bar> < 2 ^ 999"
  shows "\<exists>s. true_div n 1000 = Inr s"
proof -
  have "\<bar>n\<bar> < 2 ^ 1000" using assms by simp
  then show ?thesis by (intro true_div_in_range) simp_all
qed

lemma true_div_1000_1000: "true_div 1000 1000 = Inr (Fin 1)"
proof -
  have "to_float 1 = Fin 1"
    using to_float_eval [of 1 "- 52" 4503599627370496] by simp
  then show ?thesis by (simp add: true_div_def)
qed







lemma get_duration_truthy: "get_duration p \<noteq> 0 \<Longrightarrow> test_truthy p"
  by (auto simp: get_duration_def test_truthy_def split: option.splits)


lemma compare_with_previous_zero_previous:
  "get_duration p = 0 \<Longrightarrow> compare_with_previous d (Some p) = Inr (None, None)"
  by (simp add: compare_with_previous_def Let_def)

lemma compare_with_previous_zero_current:
  assumes "get_duration p \<noteq> 0" "true_div (get_duration p) 1000 = Inr ps"
  shows "compare_with_previous 0 (Some p) = Inr (Some ps, None)"
proof -
  have "test_truthy p" using assms(1) by (rule get_duration_truthy)
  then show ?thesis using assms by (simp add: compare_with_previous_def Let_def)
qed

lemma compare_with_previous_Some_delta:
  assumes "compare_with_previous d prev = Inr (pt, Some delta)"
  shows "d \<noteq> 0 \<and> (\<exists>p. prev = Some p \<and> get_duration p \<noteq> 0)"
  using assms
  by (cases prev) (auto simp: compare_with_previous_def Let_def split: if_splits sum.splits)

lemma compare_with_previous_zero_in_range:
  assumes "\<bar>get_duration p\<bar> < 2 ^ 999"
  shows "\<exists>pt. compare_with_previous 0 (Some p) = Inr (pt, None)"
proof (cases "get_duration p = 0")
  case True
  then show ?thesis by (simp add: compare_with_previous_zero_previous)
next
  case False
  obtain ps where "true_div (get_duration p) 1000 = Inr ps"
    using seconds_in_range [OF assms] by blast
  with False show ?thesis by (simp add: compare_with_previous_zero_current)
qed

text \<open>
  Beyond the range of the doubles the conversions to seconds raise: a previous duration
  of \<open>2 ^ 1034\<close> ms stops the comparison even when the current duration is zero, and a
  current duration of that size stops the row.
\<close>

lemma true_div_overflow:
  "true_div (2 ^ 1034) 1000 = Inl (OverflowError ''integer division result too large for a float'')"
proof -
  have "binary64 (2 ^ 1034 / 1000) = of_int 4611686018427388 * 2 powi 972"
    by (rule binary64_eval) simp_all
  then have "to_float (2 ^ 1034 / 1000) = PosInf"
    by (simp add: to_float_def)
  then show ?thesis by (simp add: true_div_def)
qed

lemma compare_with_previous_overflow:
  "compare_with_previous 0 (Some (ex_test_a (Some (2 ^ 1034))))
   = Inl (OverflowError ''integer division result too large for a float'')"
proof -
  have "test_truthy (ex_test_a (Some (2 ^ 1034)))" by (simp add: test_truthy_def ex_test_a_def)
  moreover have "get_duration (ex_test_a (Some (2 ^ 1034))) = 2 ^ 1034"
    by (simp add: get_duration_def ex_test_a_def)
  ultimately show ?thesis
    using true_div_overflow by (simp add: compare_with_previous_def Let_def)
qed

lemma test_row_of_overflow:
  "test_row_of Map.empty (ex_test_a (Some (2 ^ 1034)))
   = Inl (OverflowError ''integer division result too large for a float'')"
proof -
  have "get_duration (ex_test_a (Some (2 ^ 1034))) = 2 ^ 1034"
    by (simp add: get_duration_def ex_test_a_def)
  then show ?thesis
    using true_div_overflow by (simp add: test_row_of_def Let_def)
qed


lemma ex_test_a_names:
  "cur_test_name (ex_test_a d) = ''a''" "prev_test_name (ex_test_a d) = ''a''"
  "get_duration (ex_test_a (Some n)) = n" "get_duration (ex_test_a None) = 0"
  by (simp_all add: cur_test_name_def prev_test_name_def get_duration_def ex_test_a_def)














lemma test_row_of_zero:
  assumes "get_duration t = 0"
  shows "test_row_of pm t
         = (case compare_with_previous 0 (pm (cur_test_name t)) of
              Inl e \<Rightarrow> Inl e
            | Inr (pt, td) \<Rightarrow>
                Inr \<lparr> row_name = cur_test_name t,
                      row_status = (case status t of None \<Rightarrow> ''unknown'' | Some s \<Rightarrow> s),
                      row_priority = (case priority t of None \<Rightarrow> ''medium'' | Some p \<Rightarrow> p),
                      current_time = None, prev_time = pt, time_diff_html = td \<rparr>)"
  using assms by (simp add: test_row_of_def Let_def)

lemma compare_with_previous_zero_no_delta:
  "compare_with_previous 0 prev = Inr (pt, td) \<Longrightarrow> td = None"
  using compare_with_previous_Some_delta [of 0 prev pt] by (cases td) auto

lemma compare_with_previous_zero_total:
  assumes "case prev of None \<Rightarrow> True | Some p \<Rightarrow> \<bar>get_duration p\<bar> < 2 ^ 999"
  shows "\<exists>pt. compare_with_previous 0 prev = Inr (pt, None)"
proof (cases prev)
  case None
  then show ?thesis by (simp add: compare_with_previous_def)
next
  case (Some p)
  then show ?thesis using assms compare_with_previous_zero_in_range [of p] by simp
qed

text \<open>
  C5 as it holds.  A missing duration is read as 0, and the number 0 counts as no timing:
  a row of a test whose duration is 0 or missing has no current time and no time
  difference, such a row is produced whenever the matched previous duration, if there is
  one, is below \<open>2 ^ 999\<close> in magnitude, a time difference is shown only when the current
  and the matched previous duration are both non-zero, and a recorded 0 gives the same
  result as no duration at all.
\<close>

theorem zero_duration_is_no_timing:
  "(duration_ms t = None \<and> duration t = None \<longrightarrow> get_duration t = 0)
   \<and> (get_duration t = 0 \<and> test_row_of pm t = Inr r \<longrightarrow>
        current_time r = None \<and> time_diff_html r = None)
   \<and> (get_duration t = 0
        \<and> (case pm (cur_test_name t) of None \<Rightarrow> True | Some p \<Rightarrow> \<bar>get_duration p\<bar> < 2 ^ 999) \<longrightarrow>
        (\<exists>r'. test_row_of pm t = Inr r' \<and> current_time r' = None \<and> time_diff_html r' = None))
   \<and> (test_row_of pm t = Inr r \<and> time_diff_html r \<noteq> None \<longrightarrow>
        get_duration t \<noteq> 0 \<and> (\<exists>p. pm (cur_test_name t) = Some p \<and> get_duration p \<noteq> 0))
   \<and> test_row_of pm (t\<lparr>duration_ms := Some 0\<rparr>)
       = test_row_of pm (t\<lparr>duration_ms := None, duration := None\<rparr>)"
proof (intro conjI impI)
  assume "duration_ms t = None \<and> duration t = None"
  then show "get_duration t = 0" by (simp add: get_duration_def)
next
  assume h: "get_duration t = 0 \<and> test_row_of pm t = Inr r"
  then obtain pt td where c: "compare_with_previous 0 (pm (cur_test_name t)) = Inr (pt, td)"
    and r: "r = \<lparr> row_name = cur_test_name t,
                  row_status = (case status t of None \<Rightarrow> ''unknown'' | Some s \<Rightarrow> s),
                  row_priority = (case priority t of None \<Rightarrow> ''medium'' | Some p \<Rightarrow> p),
                  current_time = None, prev_time = pt, time_diff_html = td \<rparr>"
    by (auto simp: test_row_of_zero split: sum.splits prod.splits)
  from c have "td = None" by (rule compare_with_previous_zero_no_delta)
  with r show "current_time r = None" "time_diff_html r = None" by simp_all
next
  assume h: "get_duration t = 0
      \<and> (case pm (cur_test_name t) of None \<Rightarrow> True | Some p \<Rightarrow> \<bar>get_duration p\<bar> < 2 ^ 999)"
  then obtain pt where "compare_with_previous 0 (pm (cur_test_name t)) = Inr (pt, None)"
    using compare_with_previous_zero_total [of "pm (cur_test_name t)"] by blast
  then show "\<exists>r'. test_row_of pm t = Inr r' \<and> current_time r' = None \<and> time_diff_html r' = None"
    using h by (simp add: test_row_of_zero)
next
  assume h: "test_row_of pm t = Inr r \<and> time_diff_html r \<noteq> None"
  then obtain pt delta where
    "compare_with_previous (get_duration t) (pm (cur_test_name t)) = Inr (pt, Some delta)"
    by (auto simp: test_row_of_def Let_def split: sum.splits prod.splits if_splits)
  then have "get_duration t \<noteq> 0 \<and> (\<exists>p. pm (cur_test_name t) = Some p \<and> get_duration p \<noteq> 0)"
    by (rule compare_with_previous_Some_delta)
  then show "get_duration t \<noteq> 0" "\<exists>p. pm (cur_test_name t) = Some p \<and> get_duration p \<noteq> 0"
    by blast+
next
  have "get_duration (t\<lparr>duration_ms := Some 0\<rparr>) = 0"
    "get_duration (t\<lparr>duration_ms := None, duration := None\<rparr>) = 0"
    "cur_test_name (t\<lparr>duration_ms := Some 0\<rparr>) = cur_test_name t"
    "cur_test_name (t\<lparr>duration_ms := None, duration := None\<rparr>) = cur_test_name t"
    by (simp_all add: get_duration_def cur_test_name_def cong: option.case_cong)
  then show "test_row_of pm (t\<lparr>duration_ms := Some 0\<rparr>)
       = test_row_of pm (t\<lparr>duration_ms := None, duration := None\<rparr>)"
    by (simp add: test_row_of_zero cong: option.case_cong sum.case_cong)
qed

text \<open>
  C5 as stated fails.  A current test with a recorded duration of 0 ms, matched with a
  previous test of 1000 ms, is not compared: its row has no current time and no time
  difference and equals the row of the same test without any duration.  Two recorded
  zeros are not classified as the same either.
\<close>

theorem zero_duration_counterexample:
  "duration_ms (ex_test_a (Some 0)) = Some 0
   \<and> test_row_of (prev_tests_map (Some ex_prev_single)) (ex_test_a (Some 0))
      = Inr \<lparr> row_name = ''a'', row_status = ''passed'', row_priority = ''high'',
               current_time = None, prev_time = Some (Fin 1), time_diff_html = None \<rparr>
   \<and> test_row_of (prev_tests_map (Some ex_prev_single)) (ex_test_a (Some 0))
      = test_row_of (prev_tests_map (Some ex_prev_single)) (ex_test_a None)
   \<and> compare_with_previous 0 (Some (ex_test_a (Some 0))) = Inr (None, None)"
proof -
  have m: "prev_tests_map (Some ex_prev_single) ''a'' = Some (ex_test_a (Some 1000))"
    by (simp add: prev_tests_map_def ex_prev_single_def ex_module_of_def ex_test_a_names)
  have c: "compare_with_previous 0 (Some (ex_test_a (Some 1000))) = Inr (Some (Fin 1), None)"
    by (simp add: compare_with_previous_zero_current ex_test_a_names true_div_1000_1000)
  have s: "status (ex_test_a d) = Some ''passed''" "priority (ex_test_a d) = Some ''high''"
    "duration_ms (ex_test_a d) = d" for d
    by (simp_all add: ex_test_a_def)
  have a: "test_row_of (prev_tests_map (Some ex_prev_single)) (ex_test_a (Some 0))
      = Inr \<lparr> row_name = ''a'', row_status = ''passed'', row_priority = ''high'',
               current_time = None, prev_time = Some (Fin 1), time_diff_html = None \<rparr>"
    by (simp add: test_row_of_zero ex_test_a_names m c s)
  have b: "test_row_of (prev_tests_map (Some ex_prev_single)) (ex_test_a None)
      = Inr \<lparr> row_name = ''a'', row_status = ''passed'', row_priority = ''high'',
               current_time = None, prev_time = Some (Fin 1), time_diff_html = None \<rparr>"
    by (simp add: test_row_of_zero ex_test_a_names m c s)
  have z: "compare_with_previous 0 (Some (ex_test_a (Some 0))) = Inr (None, None)"
    by (simp add: compare_with_previous_zero_previous ex_test_a_names)
  from a b z s(3) [of "Some 0"] show ?thesis by simp
qed

theorem zero_duration_witness:
  "get_duration (ex_test_a (Some 0)) = 0
   \<and> (case prev_tests_map (Some ex_prev_single) (cur_test_name (ex_test_a (Some 0))) of
         None \<Rightarrow> True | Some p \<Rightarrow> \<bar>get_duration p\<bar> < 2 ^ 999)
   \<and> map_sum id time_diff_html
        (test_row_of (prev_tests_map (Some ex_prev_single)) (ex_test_a (Some 0))) = Inr None
   \<and> map_sum id current_time
        (test_row_of (prev_tests_map (Some ex_prev_single)) (ex_test_a (Some 0))) = Inr None"
proof -
  have z: "get_duration (ex_test_a (Some 0)) = 0" by (simp add: ex_test_a_names)
  have m: "prev_tests_map (Some ex_prev_single) ''a'' = Some (ex_test_a (Some 1000))"
    by (simp add: prev_tests_map_def ex_prev_single_def ex_module_of_def ex_test_a_names)
  have b: "case prev_tests_map (Some ex_prev_single) (cur_test_name (ex_test_a (Some 0))) of
         None \<Rightarrow> True | Some p \<Rightarrow> \<bar>get_duration p\<bar> < 2 ^ 999"
    by (simp add: ex_test_a_names m)
  from zero_duration_is_no_timing [of "ex_test_a (Some 0)" "prev_tests_map (Some ex_prev_single)"] z b
  obtain r where "test_row_of (prev_tests_map (Some ex_prev_single)) (ex_test_a (Some 0)) = Inr r"
    "current_time r = None" "time_diff_html r = None" by blast
  then have "map_sum id time_diff_html
        (test_row_of (prev_tests_map (Some ex_prev_single)) (ex_test_a (Some 0))) = Inr None"
    "map_sum id current_time
        (test_row_of (prev_tests_map (Some ex_prev_single)) (ex_test_a (Some 0))) = Inr None"
    by simp_all
  with z b show ?thesis by blast
qed

section \<open>Properties of the module cards\<close>

lemma add_prev_modules_None:
  "add_prev_modules pm ms k = None \<longleftrightarrow> pm k = None \<and> k \<notin> module_name ` set ms"
  by (induction ms arbitrary: pm) auto

lemma compare_with_previous_None: "compare_with_previous d None = Inr (None, None)"
  by (simp add: compare_with_previous_def)

lemma test_row_of_unmatched:
  assumes "pm (cur_test_name t) = None" "test_row_of pm t = Inr r"
  shows "prev_time r = None \<and> time_diff_html r = None"
  using assms
  by (auto simp: test_row_of_def Let_def compare_with_previous_None split: sum.splits if_splits)

lemma test_row_of_unmatched_total:
  assumes "pm (cur_test_name t) = None" "\<bar>get_duration t\<bar> < 2 ^ 999"
  shows "\<exists>r. test_row_of pm t = Inr r"
proof -
  obtain s where "true_div (get_duration t) 1000 = Inr s"
    using seconds_in_range [OF assms(2)] by blast
  then show ?thesis
    using assms(1) by (simp add: test_row_of_def Let_def compare_with_previous_None)
qed

lemma test_rows_unmatched:
  "test_rows Map.empty ts = Inr rows
   \<Longrightarrow> list_all (\<lambda>r. prev_time r = None \<and> time_diff_html r = None) rows"
proof (induction ts arbitrary: rows)
  case Nil
  then show ?case by simp
next
  case (Cons t ts)
  from Cons.prems obtain r rs where r: "test_row_of Map.empty t = Inr r"
    and rs: "test_rows Map.empty ts = Inr rs" and rows: "rows = r # rs"
    by (auto split: sum.splits)
  have "prev_time r = None \<and> time_diff_html r = None"
    using test_row_of_unmatched [of Map.empty t r] r by simp
  moreover have "list_all (\<lambda>r. prev_time r = None \<and> time_diff_html r = None) rs"
    using Cons.IH rs by blast
  ultimately show ?case using rows by simp
qed

lemma test_rows_unmatched_total:
  "list_all (\<lambda>t. \<bar>get_duration t\<bar> < 2 ^ 999) ts \<Longrightarrow> \<exists>rows. test_rows Map.empty ts = Inr rows"
proof (induction ts)
  case Nil
  show ?case by simp
next
  case (Cons t ts)
  then obtain r where "test_row_of Map.empty t = Inr r"
    using test_row_of_unmatched_total [of Map.empty t] by auto
  moreover from Cons obtain rs where "test_rows Map.empty ts = Inr rs" by auto
  ultimately show ?case by simp
qed

text \<open>
  C7.  For a current module whose \<open>module_name\<close> is not the name of any module of the
  previous run (or when there is no previous run), the comparison block is absent rather
  than filled with zero differences; every card produced for the module has no
  comparison, and every row of its test table shows no previous time and no time
  difference; and the card is produced when the durations of the module's tests are
  below \<open>2 ^ 999\<close> in magnitude.
\<close>

theorem absent_previous_module_no_comparison:
  assumes "module_name m \<notin> module_name ` set (case previous_data of None \<Rightarrow> [] | Some ms \<Rightarrow> ms)"
  shows "comparison_html m (build_prev_map previous_data (module_name m)) = None
     \<and> (\<forall>c. module_card_of (build_prev_map previous_data) m = Inr c \<longrightarrow>
           comparison c = None
           \<and> (case test_list c of
                 NoTestData \<Rightarrow> True
               | TestTable rows \<Rightarrow>
                   list_all (\<lambda>r. prev_time r = None \<and> time_diff_html r = None) rows))
     \<and> (list_all (\<lambda>t. \<bar>get_duration t\<bar> < 2 ^ 999) (tests m) \<longrightarrow>
          (\<exists>c. module_card_of (build_prev_map previous_data) m = Inr c))"
proof (intro conjI allI impI)
  have none: "build_prev_map previous_data (module_name m) = None"
    using assms by (cases previous_data) (simp_all add: build_prev_map_def add_prev_modules_None)
  show "comparison_html m (build_prev_map previous_data (module_name m)) = None"
    by (simp add: none comparison_html_def)
  {
    fix c
    assume c: "module_card_of (build_prev_map previous_data) m = Inr c"
    then show "comparison c = None"
      by (auto simp: module_card_of_def Let_def none comparison_html_def split: sum.splits)
    from c obtain tlist where g: "generate_test_list_html m None = Inr tlist"
      and tl: "test_list c = tlist"
      by (auto simp: module_card_of_def Let_def none split: sum.splits)
    show "case test_list c of
            NoTestData \<Rightarrow> True
          | TestTable rows \<Rightarrow>
              list_all (\<lambda>r. prev_time r = None \<and> time_diff_html r = None) rows"
    proof (cases "tests m = []")
      case True
      then show ?thesis using g tl by (simp add: generate_test_list_html_def)
    next
      case False
      then obtain rows where "test_rows Map.empty (tests m) = Inr rows" "tlist = TestTable rows"
        using g by (cases "test_rows Map.empty (tests m)")
          (auto simp: generate_test_list_html_def prev_tests_map_def)
      then show ?thesis using tl test_rows_unmatched by simp
    qed
  }
  assume "list_all (\<lambda>t. \<bar>get_duration t\<bar> < 2 ^ 999) (tests m)"
  then obtain rows where "test_rows Map.empty (tests m) = Inr rows"
    using test_rows_unmatched_total by blast
  then show "\<exists>c. module_card_of (build_prev_map previous_data) m = Inr c"
    by (simp add: module_card_of_def Let_def none generate_test_list_html_def prev_tests_map_def)
qed

theorem absent_previous_module_witness:
  "module_name (ex_module_of [ex_test_a (Some 1200)]) \<notin> module_name ` set [ex_payments]
   \<and> list_all (\<lambda>t. \<bar>get_duration t\<bar> < 2 ^ 999) (tests (ex_module_of [ex_test_a (Some 1200)]))
   \<and> comparison_html (ex_module_of [ex_test_a (Some 1200)])
        (build_prev_map (Some [ex_payments]) (module_name (ex_module_of [ex_test_a (Some 1200)])))
      = None
   \<and> map_sum id comparison
        (module_card_of (build_prev_map (Some [ex_payments])) (ex_module_of [ex_test_a (Some 1200)]))
      = Inr None"
proof -
  have h: "module_name (ex_module_of [ex_test_a (Some 1200)])
      \<notin> module_name ` set (case Some [ex_payments] of None \<Rightarrow> [] | Some ms \<Rightarrow> ms)"
    by (simp add: ex_module_of_def ex_payments_def)
  have b: "list_all (\<lambda>t. \<bar>get_duration t\<bar> < 2 ^ 999) (tests (ex_module_of [ex_test_a (Some 1200)]))"
    by (simp add: ex_module_of_def ex_test_a_names)
  note res = absent_previous_module_no_comparison [OF h]
  from res b obtain c where c: "module_card_of (build_prev_map (Some [ex_payments]))
      (ex_module_of [ex_test_a (Some 1200)]) = Inr c" by blast
  with res have "comparison c = None" by blast
  with c have "map_sum id comparison
        (module_card_of (build_prev_map (Some [ex_payments])) (ex_module_of [ex_test_a (Some 1200)]))
      = Inr None" by simp
  moreover have "module_name (ex_module_of [ex_test_a (Some 1200)]) \<notin> module_name ` set [ex_payments]"
    using h by simp
  moreover have "comparison_html (ex_module_of [ex_test_a (Some 1200)])
        (build_prev_map (Some [ex_payments]) (module_name (ex_module_of [ex_test_a (Some 1200)])))
      = None" using res by blast
  ultimately show ?thesis using b by blast
qed

section \<open>Properties of the two main functions\<close>

text \<open>
  C9.  Once the report exists (a non-empty path was returned and the file is on disk),
  whatever the Slack upload does (not configured, API or HTTP error, an exception inside
  or outside the upload call) both \<^verbatim>\<open>main\<close> functions exit with code 0, print the
  artifact path line last, and leave the file on disk.
\<close>

theorem delivery_failure_swallowed:
  assumes "rid \<noteq> []" "p \<noteq> []" "p \<in> disk"
  shows "exit_code (html_main (Some rid) (Some p) disk slack_error is_enabled reply) = 0
     \<and> last (printed (html_main (Some rid) (Some p) disk slack_error is_enabled reply))
         = ''HTML_OUTPUT_PATH:'' @ p
     \<and> p \<in> disk_after (html_main (Some rid) (Some p) disk slack_error is_enabled reply)
     \<and> exit_code (pdf_main (Some rid) (Some p) disk records slack_error is_enabled reply) = 0
     \<and> last (printed (pdf_main (Some rid) (Some p) disk records slack_error is_enabled reply))
         = ''PDF_OUTPUT_PATH:'' @ p
     \<and> p \<in> disk_after (pdf_main (Some rid) (Some p) disk records slack_error is_enabled reply)"
  using assms by (simp add: html_main_def pdf_main_def)

theorem delivery_failure_witness:
  "''run-1'' \<noteq> [] \<and> ''reports/r.html'' \<noteq> [] \<and> ''reports/r.html'' \<in> {''reports/r.html''}
   \<and> upload_html_to_slack_thread True {''reports/r.html''} ''reports/r.html'' Reply_http_error = None
   \<and> html_main (Some ''run-1'') (Some ''reports/r.html'') {''reports/r.html''} None True
        Reply_http_error
      = \<lparr> printed = [''HTML report generated successfully: reports/r.html'',
                       ''Failed to upload HTML report to Slack, but generation was successful'',
                       ''HTML_OUTPUT_PATH:reports/r.html''],
           exit_code = 0, disk_after = {''reports/r.html''} \<rparr>
   \<and> exit_code (html_main (Some ''run-1'') (Some ''reports/r.html'') {''reports/r.html''}
        (Some ''timeout'') True Reply_exception) = 0
   \<and> exit_code (pdf_main (Some ''run-1'') (Some ''reports/r.html'') {''reports/r.html''}
        (Some [ex_login]) None True Reply_api_error) = 0"
proof -
  have h: "''run-1'' \<noteq> []" "''reports/r.html'' \<noteq> []" "''reports/r.html'' \<in> {''reports/r.html''}"
    by simp_all
  have u: "upload_html_to_slack_thread True {''reports/r.html''} ''reports/r.html'' Reply_http_error = None"
    by (simp add: upload_html_to_slack_thread_def)
  have m: "html_main (Some ''run-1'') (Some ''reports/r.html'') {''reports/r.html''} None True
        Reply_http_error
      = \<lparr> printed = [''HTML report generated successfully: reports/r.html'',
                       ''Failed to upload HTML report to Slack, but generation was successful'',
                       ''HTML_OUTPUT_PATH:reports/r.html''],
           exit_code = 0, disk_after = {''reports/r.html''} \<rparr>"
    by (simp add: html_main_def u)
  from delivery_failure_swallowed [OF h, of "Some ''timeout''" True Reply_exception "Some [ex_login]"]
  have a: "exit_code (html_main (Some ''run-1'') (Some ''reports/r.html'') {''reports/r.html''}
        (Some ''timeout'') True Reply_exception) = 0" by blast
  from delivery_failure_swallowed [OF h, of None True Reply_api_error "Some [ex_login]"]
  have b: "exit_code (pdf_main (Some ''run-1'') (Some ''reports/r.html'') {''reports/r.html''}
        (Some [ex_login]) None True Reply_api_error) = 0" by blast
  from h u m a b show ?thesis by blast
qed

end
